theory Spec2Isabelle
  imports Complex_Main
begin

section \<open>Numbers, arrays and strings of the Python code\<close>

text \<open>
  The file \<^verbatim>\<open>vezda/plot_utils.py\<close> draws NumPy arrays of double-precision numbers with
  matplotlib and keeps a few integer cursors. The embedding below follows the source
  function by function.

  \<^item> A finite double is a rational number, so array elements have type \<^typ>\<open>rat\<close>. An
    arithmetic operation of NumPy on doubles is the exact operation followed by rounding
    to the nearest double, ties to even (\<open>fl\<close> below, 53 significant bits). Infinities,
    NaN, overflow and subnormal numbers are outside the model.
  \<^item> A two-dimensional array is the list of its rows; \<^verbatim>\<open>X.shape[0]\<close> is the number of rows.
    Where the code accepts arrays of two or three dimensions the type \<open>ndarray\<close> says which.
  \<^item> Python integers are \<^typ>\<open>int\<close>; \<^verbatim>\<open>%\<close> with a positive modulus is \<open>mod\<close>.
  \<^item> Every exception the code of this file can raise by itself is a value of \<open>error\<close>.
    Calls into matplotlib are recorded as drawing commands with the arguments the source
    computes for them; what matplotlib does with them is not modelled.
\<close>

datatype error =
    IndexError | ValueError | TypeError | UnboundLocalError | AttributeError
  | ZeroDivisionError | FloatingPointError

subsection \<open>Rounding to double precision\<close>

definition round_half_even :: "rat \<Rightarrow> int" where
  "round_half_even q = (let f = \<lfloor>q\<rfloor>; r = q - of_int f in
     if r < 1/2 then f else if 1/2 < r then f + 1 else if even f then f else f + 1)"

text \<open>The number of binary digits of a positive integer.\<close>

function bitlen :: "int \<Rightarrow> int" where
  "bitlen n = (if n \<le> 0 then 0 else 1 + bitlen (n div 2))"
  by pat_completeness auto
termination
  by (relation "measure nat") auto

definition pow2 :: "int \<Rightarrow> rat" where
  "pow2 e = (if 0 \<le> e then 2 ^ nat e else 1 / 2 ^ nat (- e))"

text \<open>The binary exponent \<open>e\<close> of a non-zero number: \<open>2^e \<le> |x| < 2^(e+1)\<close>.\<close>

definition binexp :: "rat \<Rightarrow> int" where
  "binexp x = (case quotient_of \<bar>x\<bar> of (p, q) \<Rightarrow>
     let k = bitlen p - bitlen q in if pow2 k \<le> \<bar>x\<bar> then k else k - 1)"

definition fl :: "rat \<Rightarrow> rat" where
  "fl x = (if x = 0 then 0
           else let u = pow2 (binexp x - 52) in of_int (round_half_even (x / u)) * u)"

subsection \<open>Indexing\<close>

text \<open>
  Python and NumPy indexing of a sequence of length \<open>n\<close> with an integer: a negative
  index counts from the end, anything else out of range raises \<^verbatim>\<open>IndexError\<close>.
\<close>

definition py_pos :: "nat \<Rightarrow> int \<Rightarrow> error + nat" where
  "py_pos n i =
     (let j = (if i < 0 then int n + i else i)
      in if 0 \<le> j \<and> j < int n then Inr (nat j) else Inl IndexError)"

definition py_index :: "'a list \<Rightarrow> int \<Rightarrow> error + 'a" where
  "py_index xs i = (case py_pos (length xs) i of Inl e \<Rightarrow> Inl e | Inr k \<Rightarrow> Inr (xs ! k))"

text \<open>
  A coordinate array (\<^verbatim>\<open>receiverPoints\<close>, \<^verbatim>\<open>sourcePoints\<close>): its second dimension
  \<^verbatim>\<open>shape[1]\<close> and its rows. \<open>point_row P i k\<close> reads \<^verbatim>\<open>P[i, 0], ..., P[i, k-1]\<close>.
\<close>

record points =
  shape1 :: nat
  rows :: "rat list list"

definition point_row :: "points \<Rightarrow> int \<Rightarrow> nat \<Rightarrow> error + rat list" where
  "point_row P i k =
     (case py_index (rows P) i of
        Inl e \<Rightarrow> Inl e
      | Inr r \<Rightarrow> if k \<le> length r then Inr (take k r) else Inl IndexError)"

subsection \<open>String formatting\<close>

definition digit :: "nat \<Rightarrow> char" where
  "digit d = ''0123456789'' ! d"

fun dec_nat :: "nat \<Rightarrow> string" where
  "dec_nat n = (if n < 10 then [digit n] else dec_nat (n div 10) @ [digit (n mod 10)])"

text \<open>\<^verbatim>\<open>'%s' % i\<close> for an integer \<open>i\<close>.\<close>

definition str_int :: "int \<Rightarrow> string" where
  "str_int i = (if i < 0 then ''-'' @ dec_nat (nat (- i)) else dec_nat (nat i))"

text \<open>
  \<^verbatim>\<open>'%0.2f' % x\<close>: the exact value of the double, rounded to two decimals, ties to even.
\<close>

definition fmt_02f :: "rat \<Rightarrow> string" where
  "fmt_02f x =
     (let h = nat (round_half_even (\<bar>x\<bar> * 100))
      in (if x < 0 then ''-'' else '''') @ dec_nat (h div 100) @ ''.''
         @ [digit (h mod 100 div 10), digit (h mod 10)])"

section \<open>Style configuration\<close>

text \<open>
  \<^verbatim>\<open>plotParams\<close> is a dictionary with a fixed set of keys (\<^verbatim>\<open>default_params\<close>, lines 75-124);
  the record has the keys that the functions modelled here read.
\<close>

record plotParams =
  view_mode :: string
  isolevel :: rat
  xlabel :: string
  ylabel :: string
  zlabel :: string
  xu :: string
  yu :: string
  zu :: string
  image_colormap :: string
  wiggle_colormap :: string
  colorbar :: bool
  shading :: string
  vmin :: rat
  vmax :: rat
  pclip :: rat
  tu :: string
  au :: string
  data_title :: string
  impulse_title :: string

definition default_params :: plotParams where
  "default_params = \<lparr>
     view_mode = ''light'', isolevel = fl (7/10),
     xlabel = '''', ylabel = '''', zlabel = '''', xu = '''', yu = '''', zu = '''',
     image_colormap = ''magma'', wiggle_colormap = ''grays'', colorbar = False,
     shading = ''flat'', vmin = 0, vmax = 1, pclip = 1, tu = '''', au = '''',
     data_title = ''Data'', impulse_title = ''Impulse Response'' \<rparr>"

text \<open>
  \<^verbatim>\<open>plt.get_cmap(name)\<close> looks a name up among the colormaps registered with matplotlib
  and raises \<^verbatim>\<open>ValueError\<close> for a name that is not registered. The registry belongs to the
  library, not to this file, so the embedding takes the list \<open>cmaps\<close> of registered names
  as a parameter of every function that may reach the lookup.
\<close>

datatype cmap = Vz_cwm | Vz_cbm | Mpl string

definition plt_get_cmap :: "string list \<Rightarrow> string \<Rightarrow> error + cmap" where
  "plt_get_cmap cmaps name = (if name \<in> set cmaps then Inr (Mpl name) else Inl ValueError)"

text \<open>
  \<^verbatim>\<open>get_cmap_colors\<close> (lines 49-72) returns a pair of fill colours, a colormap, or
  \<^verbatim>\<open>None\<close> when the name is none of the three it knows. For the names \<open>grays\<close> and
  \<open>seismic\<close> the colormap is looked up with \<^verbatim>\<open>plt.get_cmap\<close> (lines 66 and 72), which
  may raise; the fill colours need no lookup.
\<close>

datatype cmap_colors = Fills string string | Colormap cmap | NoColors

definition get_cmap_colors ::
  "string list \<Rightarrow> string \<Rightarrow> string \<Rightarrow> bool \<Rightarrow> error + cmap_colors" where
  "get_cmap_colors cmaps cmap_string mode fills =
     (if cmap_string = ''native'' then
        (if fills then Inr (Fills ''m'' ''c'')
         else if mode = ''light'' then Inr (Colormap Vz_cwm) else Inr (Colormap Vz_cbm))
      else if cmap_string = ''grays'' then
        (if fills then
           (if mode = ''light'' then Inr (Fills ''black'' ''None'')
            else Inr (Fills ''whitesmoke'' ''None''))
         else (case plt_get_cmap cmaps cmap_string of
                 Inl e \<Rightarrow> Inl e
               | Inr cm \<Rightarrow> Inr (Colormap cm)))
      else if cmap_string = ''seismic'' then
        (if fills then Inr (Fills ''blue'' ''red'')
         else (case plt_get_cmap cmaps cmap_string of
                 Inl e \<Rightarrow> Inl e
               | Inr cm \<Rightarrow> Inr (Colormap cm)))
      else Inr NoColors)"

section \<open>Axis labels of waveform plots\<close>

text \<open>
  \<^verbatim>\<open>set_ylabel\<close> (lines 409-486). The name \<^verbatim>\<open>ylabel\<close> is bound only for the four known
  flags; with any other flag every path reads it unbound (it is the first variable a
  format tuple evaluates after \<^verbatim>\<open>au\<close>, and the operand of \<^verbatim>\<open>return\<close>), which raises
  \<^verbatim>\<open>UnboundLocalError\<close>. A combination of unit strings that none of the branches tests
  leaves the short label as it is.
\<close>

definition flag_label :: "string \<Rightarrow> string option" where
  "flag_label flag =
     (if flag = ''data'' \<or> flag = ''impulse'' \<or> flag = ''left'' then Some ''Receiver''
      else if flag = ''right'' then Some ''Source''
      else None)"

definition with_row :: "points \<Rightarrow> int \<Rightarrow> nat \<Rightarrow> (rat list \<Rightarrow> string) \<Rightarrow> error + string" where
  "with_row P i k f = (case point_row P i k of Inl e \<Rightarrow> Inl e | Inr r \<Rightarrow> Inr (f r))"

definition set_ylabel ::
  "nat \<Rightarrow> points option \<Rightarrow> int \<Rightarrow> string \<Rightarrow> plotParams \<Rightarrow> error + string" where
  "set_ylabel N coordinates id_number flag pp =
     (case flag_label flag of
        None \<Rightarrow> Inl UnboundLocalError
      | Some lbl \<Rightarrow>
          if N = 1 then
            (case coordinates of
               Some c \<Rightarrow>
                 if shape1 c = 2 then
                   (if au pp \<noteq> '''' \<and> xu pp \<noteq> '''' \<and> yu pp \<noteq> '''' then
                      with_row c 0 2 (\<lambda>r.
                        ''Amplitude ('' @ au pp @ '') ['' @ lbl @ '' '' @ str_int id_number
                        @ '' @ ('' @ fmt_02f (r ! 0) @ '' '' @ xu pp
                        @ '', '' @ fmt_02f (r ! 1) @ '' '' @ yu pp @ '')]'')
                    else if au pp = '''' \<and> xu pp \<noteq> '''' \<and> yu pp \<noteq> '''' then
                      with_row c 0 2 (\<lambda>r.
                        ''Amplitude ['' @ lbl @ '' '' @ str_int id_number
                        @ '' @ ('' @ fmt_02f (r ! 0) @ '' '' @ xu pp
                        @ '', '' @ fmt_02f (r ! 1) @ '' '' @ yu pp @ '')]'')
                    else if au pp \<noteq> '''' \<and> xu pp = '''' \<and> yu pp = '''' then
                      with_row c 0 2 (\<lambda>r.
                        ''Amplitude ('' @ au pp @ '') ['' @ lbl @ '' '' @ str_int id_number
                        @ '' @ ('' @ fmt_02f (r ! 0) @ '', '' @ fmt_02f (r ! 1) @ '')]'')
                    else if au pp = '''' \<and> xu pp = '''' \<and> yu pp = '''' then
                      with_row c 0 2 (\<lambda>r.
                        ''Amplitude ['' @ lbl @ '' '' @ str_int id_number
                        @ '' @ ('' @ fmt_02f (r ! 0) @ '', '' @ fmt_02f (r ! 1) @ '')]'')
                    else Inr lbl)
                 else if shape1 c = 3 then
                   (if au pp \<noteq> '''' \<and> xu pp \<noteq> '''' \<and> yu pp \<noteq> '''' \<and> zu pp \<noteq> '''' then
                      with_row c 0 3 (\<lambda>r.
                        ''Amplitude ('' @ au pp @ '') ['' @ lbl @ '' '' @ str_int id_number
                        @ '' @ ('' @ fmt_02f (r ! 0) @ '' '' @ xu pp
                        @ '', '' @ fmt_02f (r ! 1) @ '' '' @ yu pp
                        @ '', '' @ fmt_02f (r ! 2) @ '' '' @ zu pp @ '')]'')
                    else if au pp = '''' \<and> xu pp \<noteq> '''' \<and> yu pp \<noteq> '''' \<and> zu pp \<noteq> '''' then
                      with_row c 0 3 (\<lambda>r.
                        ''Amplitude ['' @ lbl @ '' '' @ str_int id_number
                        @ '' @ ('' @ fmt_02f (r ! 0) @ '' '' @ xu pp
                        @ '', '' @ fmt_02f (r ! 1) @ '' '' @ yu pp
                        @ '', '' @ fmt_02f (r ! 2) @ '' '' @ zu pp @ '')]'')
                    else if au pp \<noteq> '''' \<and> xu pp = '''' \<and> yu pp = '''' \<and> zu pp = '''' then
                      with_row c 0 3 (\<lambda>r.
                        ''Amplitude ('' @ au pp @ '') ['' @ lbl @ '' '' @ str_int id_number
                        @ '' @ ('' @ fmt_02f (r ! 0) @ '', '' @ fmt_02f (r ! 1)
                        @ '', '' @ fmt_02f (r ! 2) @ '')]'')
                    else if au pp = '''' \<and> xu pp = '''' \<and> yu pp = '''' \<and> zu pp = '''' then
                      with_row c 0 3 (\<lambda>r.
                        ''Amplitude ['' @ lbl @ '' '' @ str_int id_number
                        @ '' @ ('' @ fmt_02f (r ! 0) @ '', '' @ fmt_02f (r ! 1)
                        @ '', '' @ fmt_02f (r ! 2) @ '')]'')
                    else Inr lbl)
                 else Inr lbl
             | None \<Rightarrow>
                 if au pp \<noteq> '''' then
                   Inr (''Amplitude ('' @ au pp @ '') ['' @ lbl @ '' '' @ str_int id_number @ '']'')
                 else
                   Inr (''Amplitude ['' @ lbl @ '' '' @ str_int id_number @ '']''))
          else Inr lbl)"

section \<open>Waveform rendering\<close>

text \<open>
  The drawing surface \<^verbatim>\<open>ax\<close> is the list of drawing calls made on it since it was last
  cleared. The colours and line widths that \<^verbatim>\<open>setFigure\<close> attaches to the surface
  (\<^verbatim>\<open>ax.linecolor\<close>, \<^verbatim>\<open>ax.alpha\<close>, ...) never change after construction and are left out
  of the commands.
\<close>

datatype ndarray = A2 "rat list list" | A3 "rat list list list"

datatype draw =
    SetYLabel string
  | SetYTicks "int list"
  | SetYTickLabels "int list"
  | ShowYTicks
  | Plot "rat list" "rat list"
  | FillBetween "rat list" rat "rat list" "bool list" string
  | PColorMesh "rat list" "int list" "rat list list" rat rat cmap_colors
  | OffsetTextX
  | SciTickFormat
  | SetTitle string
  | SetXLabel string
  | SetXLim rat rat
  | GridOff
  | ImageMesh ndarray ndarray ndarray rat rat cmap string
  | Colorbar bool
  | SetTitleAlpha rat
  | PlotTrisurf rat
  | SetZLabel string

text \<open>
  A rendering function receives its array by reference and may write to it. Its outcome
  is the exception raised (if any), the contents of that same array object when the call
  ends, and the content of the surface. An exception keeps what was written and drawn
  before it.
\<close>

record outcome =
  err :: "error option"
  arr :: "rat list list"
  drawn :: "draw list"

text \<open>\<^verbatim>\<open>np.max\<close> of a one-dimensional array; NumPy refuses an empty one.\<close>

definition amax :: "rat list \<Rightarrow> error + rat" where
  "amax xs = (case xs of [] \<Rightarrow> Inl ValueError | x # r \<Rightarrow> Inr (fold max r x))"

text \<open>\<^verbatim>\<open>np.ptp(X, axis=1)\<close>: maximum minus minimum of every row.\<close>

definition ptp :: "rat list \<Rightarrow> rat" where
  "ptp r = fl (fold max r (hd r) - fold min r (hd r))"

definition ptp_rows :: "rat list list \<Rightarrow> error + rat list" where
  "ptp_rows X = (if [] \<in> set X then Inl ValueError else Inr (map ptp X))"

text \<open>\<^verbatim>\<open>scaleFactor = np.max(np.ptp(X, axis=1))\<close> (lines 508 and 523).\<close>

definition scale_lines :: "rat list list \<Rightarrow> error + rat" where
  "scale_lines X = (case ptp_rows X of Inl e \<Rightarrow> Inl e | Inr ps \<Rightarrow> amax ps)"

text \<open>
  \<^verbatim>\<open>X /= scaleFactor\<close>: every element is divided in place. With a zero divisor NumPy
  stores infinities or NaN and warns; these values are outside the model, which reports
  the division by zero as \<open>FloatingPointError\<close> instead.
\<close>

definition idiv :: "rat list list \<Rightarrow> rat \<Rightarrow> error + rat list list" where
  "idiv X s = (if s = 0 then Inl FloatingPointError
               else Inr (map (map (\<lambda>x. fl (x / s))) X))"

text \<open>Lines 507-510 (and again 522-525).\<close>

definition rescale :: "rat list list \<Rightarrow> error + rat list list" where
  "rescale X =
     (case scale_lines X of
        Inl e \<Rightarrow> Inl e
      | Inr scaleFactor \<Rightarrow> if scaleFactor \<noteq> 0 then idiv X scaleFactor else Inr X)"

text \<open>\<^verbatim>\<open>interval[n] + X[n, :]\<close>: an integer added to a row of doubles.\<close>

definition offset :: "int \<Rightarrow> rat list \<Rightarrow> rat list" where
  "offset i tr = map (\<lambda>x. fl (of_int i + x)) tr"

text \<open>The body of the loop over the traces (lines 513-517), and the loop.\<close>

definition trace_cmds :: "rat list \<Rightarrow> int \<Rightarrow> rat list \<Rightarrow> string \<Rightarrow> string \<Rightarrow> draw list" where
  "trace_cmds xvals i tr pos_fill neg_fill =
     (let ys = offset i tr in
      [Plot xvals ys,
       FillBetween xvals (of_int i) ys (map (\<lambda>y. of_int i < y) ys) pos_fill,
       FillBetween xvals (of_int i) ys (map (\<lambda>y. y < of_int i) ys) neg_fill])"

fun draw_traces ::
  "rat list \<Rightarrow> int list \<Rightarrow> rat list list \<Rightarrow> string \<Rightarrow> string \<Rightarrow> nat list
   \<Rightarrow> error option \<times> draw list" where
  "draw_traces xvals interval X pos_fill neg_fill [] = (None, [])"
| "draw_traces xvals interval X pos_fill neg_fill (n # ns) =
     (if n < length interval then
        (case draw_traces xvals interval X pos_fill neg_fill ns of
           (e, d) \<Rightarrow> (e, trace_cmds xvals (interval ! n) (X ! n) pos_fill neg_fill @ d))
      else (Some IndexError, []))"

text \<open>
  Offset-stacked lines: lines 505-517 for \<open>N \<le> 18\<close>, repeated verbatim as lines 520-532
  for \<open>18 < N \<le> 70\<close>. Unpacking the \<^verbatim>\<open>None\<close> that \<^verbatim>\<open>get_cmap_colors\<close> returns for an
  unknown colormap name raises \<^verbatim>\<open>TypeError\<close>.
\<close>

definition wiggle_lines ::
  "string list \<Rightarrow> draw list \<Rightarrow> rat list list \<Rightarrow> rat list \<Rightarrow> int list \<Rightarrow> plotParams \<Rightarrow> outcome" where
  "wiggle_lines cmaps d X xvals interval pp =
     (case get_cmap_colors cmaps (wiggle_colormap pp) (view_mode pp) True of
        Inl e \<Rightarrow> \<lparr>err = Some e, arr = X, drawn = d\<rparr>
      | Inr (Fills pos_fill neg_fill) \<Rightarrow>
          (case rescale X of
             Inl e \<Rightarrow> \<lparr>err = Some e, arr = X, drawn = d\<rparr>
           | Inr X' \<Rightarrow>
               (case draw_traces xvals interval X' pos_fill neg_fill [0..<length X] of
                  (e, cmds) \<Rightarrow> \<lparr>err = e, arr = X', drawn = d @ cmds\<rparr>))
      | Inr _ \<Rightarrow> \<lparr>err = Some TypeError, arr = X, drawn = d\<rparr>)"

text \<open>
  The rasterised grid, lines 535-539. The colormap is fetched after the scale factor
  was computed and before the mesh is drawn.
\<close>

definition wiggle_raster ::
  "string list \<Rightarrow> draw list \<Rightarrow> rat list list \<Rightarrow> rat list \<Rightarrow> int list \<Rightarrow> plotParams \<Rightarrow> outcome" where
  "wiggle_raster cmaps d X xvals interval pp =
     (case amax (map abs (concat X)) of
        Inl e \<Rightarrow> \<lparr>err = Some e, arr = X, drawn = d\<rparr>
      | Inr scaleFactor \<Rightarrow>
          (case get_cmap_colors cmaps (wiggle_colormap pp) (view_mode pp) False of
             Inl e \<Rightarrow> \<lparr>err = Some e, arr = X, drawn = d\<rparr>
           | Inr wiggle_cmap \<Rightarrow>
               \<lparr>err = None, arr = X,
                drawn = d @ [PColorMesh xvals interval X
                               (fl (- scaleFactor * pclip pp)) (fl (scaleFactor * pclip pp))
                               wiggle_cmap]\<rparr>))"

text \<open>The branch taken when \<open>N > 1\<close> does not hold, lines 541-548.\<close>

definition wiggle_single ::
  "string list \<Rightarrow> draw list \<Rightarrow> rat list list \<Rightarrow> rat list \<Rightarrow> plotParams \<Rightarrow> outcome" where
  "wiggle_single cmaps d X xvals pp =
     (case get_cmap_colors cmaps (wiggle_colormap pp) (view_mode pp) True of
        Inl e \<Rightarrow> \<lparr>err = Some e, arr = X, drawn = d\<rparr>
      | Inr (Fills pos_fill neg_fill) \<Rightarrow>
          (case X of
             [] \<Rightarrow> \<lparr>err = Some IndexError, arr = X, drawn = d @ [OffsetTextX]\<rparr>
           | x0 # _ \<Rightarrow>
               \<lparr>err = None, arr = X,
                drawn = d @ [OffsetTextX, Plot xvals x0,
                             FillBetween xvals 0 x0 (map (\<lambda>y. 0 < y) x0) pos_fill,
                             FillBetween xvals 0 x0 (map (\<lambda>y. y < 0) x0) neg_fill,
                             SciTickFormat]\<rparr>)
      | Inr _ \<Rightarrow> \<lparr>err = Some TypeError, arr = X, drawn = d\<rparr>)"

text \<open>Title, time axis label and limits, lines 550-558.\<close>

definition wiggle_finish :: "outcome \<Rightarrow> rat list \<Rightarrow> string \<Rightarrow> plotParams \<Rightarrow> outcome" where
  "wiggle_finish r xvals title pp =
     (case err r of
        Some e \<Rightarrow> r
      | None \<Rightarrow>
          (let d = drawn r @ [SetTitle title,
                              SetXLabel (if tu pp \<noteq> '''' then ''Time ('' @ tu pp @ '')''
                                         else ''Time'')]
           in if xvals = [] then r\<lparr>err := Some IndexError, drawn := d\<rparr>
              else r\<lparr>drawn := d @ [SetXLim (hd xvals) (last xvals)]\<rparr>))"

text \<open>
  \<^verbatim>\<open>plotWiggles\<close> (lines 490-560). \<^verbatim>\<open>ax.clear()\<close> discards what the surface showed
  before, so the previous content \<open>ax\<close> does not occur on the right-hand side.
\<close>

definition plotWiggles ::
  "string list \<Rightarrow> draw list \<Rightarrow> rat list list \<Rightarrow> rat list \<Rightarrow> int list \<Rightarrow> points option \<Rightarrow> string \<Rightarrow> string
   \<Rightarrow> plotParams \<Rightarrow> outcome" where
  "plotWiggles cmaps ax X xvals interval coordinates title flag pp =
     (let N = length X in
      case interval of
        [] \<Rightarrow> \<lparr>err = Some IndexError, arr = X, drawn = []\<rparr>
      | id_number # _ \<Rightarrow>
          (case set_ylabel N coordinates id_number flag pp of
             Inl e \<Rightarrow> \<lparr>err = Some e, arr = X, drawn = []\<rparr>
           | Inr yl \<Rightarrow>
               wiggle_finish
                 (if N > 1 then
                    if N \<le> 18 then
                      wiggle_lines cmaps [SetYLabel yl, SetYTicks interval, SetYTickLabels interval,
                                    ShowYTicks] X xvals interval pp
                    else if N > 18 \<and> N \<le> 70 then
                      wiggle_lines cmaps [SetYLabel yl] X xvals interval pp
                    else
                      wiggle_raster cmaps [SetYLabel yl] X xvals interval pp
                  else
                    wiggle_single cmaps [SetYLabel yl] X xvals pp)
                 xvals title pp))"

section \<open>Titles of waveform plots\<close>

text \<open>
  \<^verbatim>\<open>wave_title\<close> (lines 1113-1189). The name \<^verbatim>\<open>title\<close> stays unbound, and \<^verbatim>\<open>return title\<close>
  raises \<^verbatim>\<open>UnboundLocalError\<close>, when the coordinates have neither two nor three columns
  and, for impulse responses, when only some of the unit strings are empty. An impulse
  response without source points fails on \<^verbatim>\<open>sourcePoints.shape\<close>.
\<close>

definition bf_z :: string where
  "bf_z = ''$'' @ [CHR 0x5C] @ ''bf{z}$''"

definition wave_title ::
  "int \<Rightarrow> int list \<Rightarrow> points option \<Rightarrow> string \<Rightarrow> plotParams \<Rightarrow> error + string" where
  "wave_title index sourceNumbers sourcePoints flag pp =
     (if flag = ''data'' then
        (case sourcePoints of
           None \<Rightarrow>
             (case py_index sourceNumbers index of
                Inl e \<Rightarrow> Inl e
              | Inr sn \<Rightarrow>
                  Inr (data_title pp @ '' [Record '' @ str_int sn @ ''/''
                       @ str_int (int (length sourceNumbers)) @ '']''))
         | Some sp \<Rightarrow>
             if shape1 sp = 2 then
               (case py_index sourceNumbers index of
                  Inl e \<Rightarrow> Inl e
                | Inr sn \<Rightarrow>
                    if xu pp \<noteq> '''' \<and> yu pp \<noteq> '''' then
                      with_row sp index 2 (\<lambda>r.
                        data_title pp @ '' [Source '' @ str_int sn
                        @ '' @ ('' @ fmt_02f (r ! 0) @ '' '' @ xu pp
                        @ '', '' @ fmt_02f (r ! 1) @ '' '' @ yu pp @ '')]'')
                    else
                      with_row sp index 2 (\<lambda>r.
                        data_title pp @ '' [Source '' @ str_int sn
                        @ '' @ ('' @ fmt_02f (r ! 0) @ '', '' @ fmt_02f (r ! 1) @ '')]''))
             else if shape1 sp = 3 then
               (case py_index sourceNumbers index of
                  Inl e \<Rightarrow> Inl e
                | Inr sn \<Rightarrow>
                    if xu pp \<noteq> '''' \<and> yu pp \<noteq> '''' \<and> zu pp \<noteq> '''' then
                      with_row sp index 3 (\<lambda>r.
                        data_title pp @ '' [Source '' @ str_int sn
                        @ '' @ ('' @ fmt_02f (r ! 0) @ '' '' @ xu pp
                        @ '', '' @ fmt_02f (r ! 1) @ '' '' @ yu pp
                        @ '', '' @ fmt_02f (r ! 2) @ '' '' @ zu pp @ '')]'')
                    else
                      with_row sp index 3 (\<lambda>r.
                        data_title pp @ '' [Source '' @ str_int sn
                        @ '' @ ('' @ fmt_02f (r ! 0) @ '', '' @ fmt_02f (r ! 1)
                        @ '', '' @ fmt_02f (r ! 2) @ '')]''))
             else Inl UnboundLocalError)
      else
        (case sourcePoints of
           None \<Rightarrow> Inl AttributeError
         | Some sp \<Rightarrow>
             if shape1 sp = 2 then
               (if xu pp \<noteq> '''' \<and> yu pp \<noteq> '''' then
                  with_row sp index 2 (\<lambda>r.
                    impulse_title pp @ '' ['' @ bf_z
                    @ '' @ ('' @ fmt_02f (r ! 0) @ '' '' @ xu pp
                    @ '', '' @ fmt_02f (r ! 1) @ '' '' @ yu pp @ '')]'')
                else if xu pp = '''' \<and> yu pp = '''' then
                  with_row sp index 2 (\<lambda>r.
                    impulse_title pp @ '' ['' @ bf_z
                    @ '' @ ('' @ fmt_02f (r ! 0) @ '', '' @ fmt_02f (r ! 1) @ '')]'')
                else Inl UnboundLocalError)
             else if shape1 sp = 3 then
               (if xu pp \<noteq> '''' \<and> yu pp \<noteq> '''' \<and> zu pp \<noteq> '''' then
                  with_row sp index 3 (\<lambda>r.
                    impulse_title pp @ '' ['' @ bf_z
                    @ '' @ ('' @ fmt_02f (r ! 0) @ '' '' @ xu pp
                    @ '', '' @ fmt_02f (r ! 1) @ '' '' @ yu pp
                    @ '', '' @ fmt_02f (r ! 2) @ '' '' @ zu pp @ '')]'')
                else if xu pp = '''' \<and> yu pp = '''' \<and> zu pp = '''' then
                  with_row sp index 3 (\<lambda>r.
                    impulse_title pp @ '' ['' @ bf_z
                    @ '' @ ('' @ fmt_02f (r ! 0) @ '', '' @ fmt_02f (r ! 1)
                    @ '', '' @ fmt_02f (r ! 2) @ '')]'')
                else Inl UnboundLocalError)
             else Inl UnboundLocalError))"

section \<open>Image rendering\<close>

text \<open>
  \<^verbatim>\<open>image_viewer\<close> (lines 783-872) receives a two-dimensional image, or a
  three-dimensional volume together with the grid \<open>Z\<close>.

  With \<open>Z = None\<close> the colormap is looked up first (line 813), which raises for a name
  that is not registered and then leaves the array as it was. After the lookup the
  statement \<^verbatim>\<open>volume[volume > plotParams['vmax']] = plotParams['vmin']\<close>
  assigns through a boolean mask, that is, it writes into the array it was given. The
  title shows \<open>alpha\<close> (in scientific notation unless it is zero); the command
  \<open>SetTitleAlpha\<close> records the number.

  With a grid \<open>Z\<close> the first statement that touches \<^verbatim>\<open>title\<close> is \<^verbatim>\<open>title += ...\<close>, on a
  name that is still unbound: this branch always ends in \<^verbatim>\<open>UnboundLocalError\<close> (unless
  the external surface extraction has raised before), after the surface was drawn. It
  contains no assignment to \<^verbatim>\<open>volume\<close>.
\<close>

record image_outcome =
  ierr :: "error option"
  iarr :: ndarray
  idrawn :: "draw list"

definition mask_assign :: "rat \<Rightarrow> rat \<Rightarrow> rat \<Rightarrow> rat" where
  "mask_assign hi lo v = (if hi < v then lo else v)"

fun clip_above :: "rat \<Rightarrow> rat \<Rightarrow> ndarray \<Rightarrow> ndarray" where
  "clip_above hi lo (A2 v) = A2 (map (map (mask_assign hi lo)) v)"
| "clip_above hi lo (A3 v) = A3 (map (map (map (mask_assign hi lo))) v)"

definition unit_label :: "string \<Rightarrow> string \<Rightarrow> string" where
  "unit_label label u = (if u \<noteq> '''' then label @ '' ('' @ u @ '')'' else label)"

definition image_viewer ::
  "string list \<Rightarrow> draw list \<Rightarrow> ndarray \<Rightarrow> string \<Rightarrow> rat \<Rightarrow> rat \<Rightarrow> rat \<Rightarrow> plotParams
   \<Rightarrow> ndarray \<Rightarrow> ndarray \<Rightarrow> ndarray option \<Rightarrow> rat option \<Rightarrow> image_outcome" where
  "image_viewer cmaps ax volume method alpha atol btol pp X Y Z tau =
     (let d = [GridOff, SetXLabel (unit_label (xlabel pp) (xu pp)),
               SetYLabel (unit_label (ylabel pp) (yu pp))]
      in case Z of
           None \<Rightarrow>
             (case plt_get_cmap cmaps (image_colormap pp) of
                Inl e \<Rightarrow> \<lparr>ierr = Some e, iarr = volume, idrawn = d\<rparr>
              | Inr image_cmap \<Rightarrow>
                  (let volume' = clip_above (vmax pp) (vmin pp) volume;
                       im = [ImageMesh X Y volume' (vmin pp) (vmax pp) image_cmap (shading pp)]
                   in \<lparr>ierr = None, iarr = volume',
                       idrawn = d @ im @ (if colorbar pp then [Colorbar (tau \<noteq> None)] else [])
                                @ [SetTitleAlpha alpha]\<rparr>))
         | Some z \<Rightarrow>
             \<lparr>ierr = Some UnboundLocalError, iarr = volume,
              idrawn = d @ [PlotTrisurf (isolevel pp), SetZLabel (unit_label (zlabel pp) (zu pp))]\<rparr>)"

section \<open>The waveform viewer and its cursor\<close>

text \<open>
  An \<^verbatim>\<open>Experiment\<close> (lines 914-924). The three-dimensional array \<^verbatim>\<open>data\<close> is indexed
  (receiver, time, source); the viewer only ever takes the slices \<^verbatim>\<open>data[:, :, s]\<close>,
  which NumPy returns as views on the array. The record stores \<open>data\<close> as the list of
  these slices, so that a write through the view of source \<open>s\<close> is an update of the
  element \<open>s\<close> of the list.
\<close>

record Experiment =
  data :: "rat list list list"
  time :: "rat list"
  receiverNumbers :: "int list"
  receiverPoints :: "points option"
  sourceNumbers :: "int list"
  sourcePoints :: "points option"
  wiggleType :: string

text \<open>The surface with the attribute \<^verbatim>\<open>source_index\<close> that the viewer attaches to it.\<close>

record axes =
  source_index :: int
  content :: "draw list"

text \<open>
  Lines 1082-1086, the same in \<^verbatim>\<open>previous_wave\<close>, \<^verbatim>\<open>switch_experiments\<close> and
  \<^verbatim>\<open>Experiment.plot\<close>: compose the title, then draw the slice of the current source.
  The result is the exception (if any) and the surface and experiment after the call.
\<close>

definition render_wave ::
  "string list \<Rightarrow> axes \<Rightarrow> Experiment \<Rightarrow> plotParams \<Rightarrow> error option \<times> axes \<times> Experiment" where
  "render_wave cmaps a ex pp =
     (case wave_title (source_index a) (sourceNumbers ex) (sourcePoints ex) (wiggleType ex) pp of
        Inl e \<Rightarrow> (Some e, a, ex)
      | Inr title \<Rightarrow>
          (case py_pos (length (data ex)) (source_index a) of
             Inl e \<Rightarrow> (Some e, a, ex)
           | Inr k \<Rightarrow>
               (let r = plotWiggles cmaps (content a) (data ex ! k) (time ex) (receiverNumbers ex)
                          (receiverPoints ex) title (wiggleType ex) pp
                in (err r, a\<lparr>content := drawn r\<rparr>, ex\<lparr>data := (data ex)[k := arr r]\<rparr>))))"

text \<open>\<^verbatim>\<open>next_wave\<close> (lines 1079-1086) and \<^verbatim>\<open>previous_wave\<close> (lines 1089-1096).\<close>

definition next_wave ::
  "string list \<Rightarrow> axes \<Rightarrow> Experiment \<Rightarrow> plotParams \<Rightarrow> error option \<times> axes \<times> Experiment" where
  "next_wave cmaps a ex pp =
     (let Ns = int (length (sourceNumbers ex)) in
      if Ns = 0 then (Some ZeroDivisionError, a, ex)
      else render_wave cmaps (a\<lparr>source_index := (source_index a + 1) mod Ns\<rparr>) ex pp)"

definition previous_wave ::
  "string list \<Rightarrow> axes \<Rightarrow> Experiment \<Rightarrow> plotParams \<Rightarrow> error option \<times> axes \<times> Experiment" where
  "previous_wave cmaps a ex pp =
     (let Ns = int (length (sourceNumbers ex)) in
      if Ns = 0 then (Some ZeroDivisionError, a, ex)
      else render_wave cmaps (a\<lparr>source_index := (source_index a - 1) mod Ns\<rparr>) ex pp)"

text \<open>
  The \<^verbatim>\<open>Plotter\<close> (lines 956-960) holds the list \<^verbatim>\<open>[original, reciprocal]\<close> and the index of
  the dataset on display. The viewer is the plotter together with the surface
  \<^verbatim>\<open>fig.axes[0]\<close> of its figure. Only the single-panel mode (\<^verbatim>\<open>show_map = False\<close>) is
  modelled; in the two-panel mode the same code runs on the first surface and
  \<^verbatim>\<open>plotMap\<close> draws on the second.
\<close>

record plotter =
  experiments :: "Experiment option list"
  index :: int

record viewer = plotter +
  fig_ax :: axes

definition Plotter_init :: "Experiment \<Rightarrow> Experiment option \<Rightarrow> plotter" where
  "Plotter_init original reciprocal = \<lparr>experiments = [Some original, reciprocal], index = 0\<rparr>"

text \<open>
  \<^verbatim>\<open>Plotter.plot\<close> with \<^verbatim>\<open>Experiment.plot\<close> (lines 945-953 and 962-972): the cursor starts in
  the middle of the source numbers.
\<close>

definition Plotter_plot :: "string list \<Rightarrow> plotter \<Rightarrow> plotParams \<Rightarrow> error option \<times> viewer" where
  "Plotter_plot cmaps p pp =
     (let v0 = \<lparr>experiments = experiments p, index = index p,
                fig_ax = \<lparr>source_index = 0, content = []\<rparr>\<rparr>
      in case py_pos (length (experiments p)) (index p) of
           Inl e \<Rightarrow> (Some e, v0)
         | Inr k \<Rightarrow>
             (case experiments p ! k of
                None \<Rightarrow> (Some AttributeError, v0)
              | Some ex \<Rightarrow>
                  (case render_wave cmaps \<lparr>source_index = int (length (sourceNumbers ex)) div 2,
                                     content = []\<rparr> ex pp of
                     (e, a', ex') \<Rightarrow>
                       (e, v0\<lparr>experiments := (experiments p)[k := Some ex'], fig_ax := a'\<rparr>))))"

text \<open>
  \<^verbatim>\<open>switch_experiments\<close> (lines 975-1027), called on every key press with the name of the
  key. Reading an attribute of the experiment \<^verbatim>\<open>None\<close> raises \<^verbatim>\<open>AttributeError\<close>.
\<close>

definition switch_experiments :: "string list \<Rightarrow> string \<Rightarrow> viewer \<Rightarrow> plotParams \<Rightarrow> error option \<times> viewer" where
  "switch_experiments cmaps key v pp =
     (case py_index (experiments v) 1 of
        Inl e \<Rightarrow> (Some e, v)
      | Inr e1 \<Rightarrow>
          (let Ne = (if e1 = None then 1 else 2);
               v1 = (if key = ''r'' then v\<lparr>index := (index v + 1) mod Ne\<rparr> else v)
           in case py_pos (length (experiments v1)) (index v1) of
                Inl e \<Rightarrow> (Some e, v1)
              | Inr k \<Rightarrow>
                  (case experiments v1 ! k of
                     None \<Rightarrow> (Some AttributeError, v1)
                   | Some ex \<Rightarrow>
                       (case render_wave cmaps (fig_ax v1) ex pp of
                          (e, a', ex') \<Rightarrow>
                            (e, v1\<lparr>experiments := (experiments v1)[k := Some ex'],
                                   fig_ax := a'\<rparr>)))))"

text \<open>\<^verbatim>\<open>process_key_waves\<close> (lines 1030-1076), single-panel branch.\<close>

definition process_key_waves :: "string list \<Rightarrow> string \<Rightarrow> viewer \<Rightarrow> plotParams \<Rightarrow> error option \<times> viewer" where
  "process_key_waves cmaps key v pp =
     (case py_pos (length (experiments v)) (index v) of
        Inl e \<Rightarrow> (Some e, v)
      | Inr k \<Rightarrow>
          (if key = ''left'' \<or> key = ''down'' then
             (case experiments v ! k of
                None \<Rightarrow> (Some AttributeError, v)
              | Some ex \<Rightarrow>
                  (case previous_wave cmaps (fig_ax v) ex pp of
                     (e, a', ex') \<Rightarrow>
                       (e, v\<lparr>experiments := (experiments v)[k := Some ex'], fig_ax := a'\<rparr>)))
           else if key = ''right'' \<or> key = ''up'' then
             (case experiments v ! k of
                None \<Rightarrow> (Some AttributeError, v)
              | Some ex \<Rightarrow>
                  (case next_wave cmaps (fig_ax v) ex pp of
                     (e, a', ex') \<Rightarrow>
                       (e, v\<lparr>experiments := (experiments v)[k := Some ex'], fig_ax := a'\<rparr>)))
           else (None, v)))"

section \<open>Navigation commands\<close>

text \<open>
  The state that a key handler leaves behind, whether or not the rendering it triggers
  raised: the handlers update the cursor before they draw, and an exception in a
  matplotlib callback does not undo what was assigned before it.
  \<open>advance\<close> is the effect of \<^verbatim>\<open>next_wave\<close>, \<open>retreat\<close> that of \<^verbatim>\<open>previous_wave\<close>.
\<close>

definition advance :: "string list \<Rightarrow> plotParams \<Rightarrow> axes \<times> Experiment \<Rightarrow> axes \<times> Experiment" where
  "advance cmaps pp s = snd (next_wave cmaps (fst s) (snd s) pp)"

definition retreat :: "string list \<Rightarrow> plotParams \<Rightarrow> axes \<times> Experiment \<Rightarrow> axes \<times> Experiment" where
  "retreat cmaps pp s = snd (previous_wave cmaps (fst s) (snd s) pp)"

section \<open>Example data\<close>

text \<open>
  A registry with some of the names of matplotlib. The name \<open>grays\<close> of the default
  wiggle colormap is not among them, as it is not among the names that matplotlib
  registers itself (\<open>gray\<close> and \<open>Greys\<close> are). \<open>native_params\<close> are the default parameters
  with the colormap of this file, which needs no lookup.
\<close>

definition demo_cmaps :: "string list" where
  "demo_cmaps = [''magma'', ''seismic'', ''viridis'', ''gray'']"

definition native_params :: plotParams where
  "native_params = default_params\<lparr>wiggle_colormap := ''native''\<rparr>"

text \<open>A small experiment: two receivers, two time samples, three sources.\<close>

definition demo_points :: points where
  "demo_points = \<lparr>shape1 = 2, rows = [[0, 1], [1, 1], [2, 1]]\<rparr>"

definition demo_experiment :: Experiment where
  "demo_experiment = \<lparr>
     data = [[[7, 2], [0, 0]], [[1, 0], [0, 1]], [[0, 0], [0, 0]]],
     time = [0, 1],
     receiverNumbers = [1, 2],
     receiverPoints = Some \<lparr>shape1 = 2, rows = [[0, 0], [1, 0]]\<rparr>,
     sourceNumbers = [1, 2, 3],
     sourcePoints = Some demo_points,
     wiggleType = ''data'' \<rparr>"

definition demo_axes :: axes where
  "demo_axes = \<lparr>source_index = 2, content = []\<rparr>"

section \<open>The dataset switch\<close>

text \<open>
  \<open>press\<close> is the state that \<^verbatim>\<open>switch_experiments\<close> leaves behind for a key. A plotter
  built with \<^verbatim>\<open>reciprocal=None\<close> has one dataset, otherwise two.
\<close>

definition press :: "string list \<Rightarrow> string \<Rightarrow> plotParams \<Rightarrow> viewer \<Rightarrow> viewer" where
  "press cmaps key pp v = snd (switch_experiments cmaps key v pp)"

definition one_dataset :: "viewer \<Rightarrow> bool" where
  "one_dataset v = (case experiments v of [Some ex, None] \<Rightarrow> True | _ \<Rightarrow> False)"

definition two_datasets :: "viewer \<Rightarrow> bool" where
  "two_datasets v = (case experiments v of [Some ex, Some ex2] \<Rightarrow> True | _ \<Rightarrow> False)"

definition demo_viewer :: "Experiment option \<Rightarrow> viewer" where
  "demo_viewer reciprocal =
     \<lparr>experiments = [Some demo_experiment, reciprocal], index = 0, fig_ax = demo_axes\<rparr>"

section \<open>Observations on a drawing\<close>

text \<open>
  What a reader of the drawing can tell: whether tick labels were set, whether a line was
  plotted, whether a colour mesh was drawn, and whether every trace \<open>n\<close> of a stack was
  plotted as a line displaced by \<^verbatim>\<open>interval[n]\<close>.
\<close>

fun is_tick_labels :: "draw \<Rightarrow> bool" where
  "is_tick_labels (SetYTickLabels iv) = True"
| "is_tick_labels c = False"



definition stacked_lines :: "rat list \<Rightarrow> int list \<Rightarrow> rat list list \<Rightarrow> draw list \<Rightarrow> bool" where
  "stacked_lines xvals interval X d =
     list_all (\<lambda>n. Plot xvals (offset (interval ! n) (X ! n)) \<in> set d) [0..<length X]"

text \<open>The title and the time axis that end every completed drawing (lines 550-558).\<close>

definition time_axis :: "rat list \<Rightarrow> string \<Rightarrow> plotParams \<Rightarrow> draw list" where
  "time_axis xvals title pp =
     [SetTitle title,
      SetXLabel (if tu pp \<noteq> '''' then ''Time ('' @ tu pp @ '')'' else ''Time''),
      SetXLim (hd xvals) (last xvals)]"

text \<open>Stacks of \<open>n\<close> traces with two samples each, numbered \<open>1, ..., n\<close>.\<close>

definition demo_stack :: "nat \<Rightarrow> rat list list" where
  "demo_stack n = replicate n [0, 1]"

definition demo_numbers :: "nat \<Rightarrow> int list" where
  "demo_numbers n = map int [1..<Suc n]"

section \<open>Drawing again\<close>

text \<open>
  A second call of \<^verbatim>\<open>plotWiggles\<close> with the same arguments: the same surface object, now
  showing what the first call drew, and the same array object, now holding what the first
  call left in it.
\<close>

definition redraw ::
  "string list \<Rightarrow> rat list \<Rightarrow> int list \<Rightarrow> points option \<Rightarrow> string \<Rightarrow> string \<Rightarrow> plotParams \<Rightarrow> outcome
   \<Rightarrow> outcome" where
  "redraw cmaps xvals interval coordinates title flag pp r =
     plotWiggles cmaps (drawn r) (arr r) xvals interval coordinates title flag pp"

section \<open>Captions with one suffix per unit string\<close>

text \<open>
  The captions as the specification words them, for comparison with \<^verbatim>\<open>set_ylabel\<close> and
  \<^verbatim>\<open>wave_title\<close>: the entity, its number and its coordinates, each coordinate followed by
  its own unit exactly when that unit string is not empty.
\<close>

definition unit_suffix :: "string \<Rightarrow> string" where
  "unit_suffix u = (if u = '''' then '''' else '' '' @ u)"

definition spec_coords2 :: "rat list \<Rightarrow> string \<Rightarrow> string \<Rightarrow> string" where
  "spec_coords2 r ux uy =
     ''('' @ fmt_02f (r ! 0) @ unit_suffix ux @ '', '' @ fmt_02f (r ! 1) @ unit_suffix uy @ '')''"

definition spec_coords3 :: "rat list \<Rightarrow> string \<Rightarrow> string \<Rightarrow> string \<Rightarrow> string" where
  "spec_coords3 r ux uy uz =
     ''('' @ fmt_02f (r ! 0) @ unit_suffix ux @ '', '' @ fmt_02f (r ! 1) @ unit_suffix uy
     @ '', '' @ fmt_02f (r ! 2) @ unit_suffix uz @ '')''"

definition spec_ylabel :: "string \<Rightarrow> string \<Rightarrow> int \<Rightarrow> string \<Rightarrow> string" where
  "spec_ylabel amp lbl i coords =
     ''Amplitude'' @ (if amp = '''' then '''' else '' ('' @ amp @ '')'')
     @ '' ['' @ lbl @ '' '' @ str_int i @ '' @ '' @ coords @ '']''"

definition spec_data_title :: "string \<Rightarrow> int \<Rightarrow> string \<Rightarrow> string" where
  "spec_data_title t sn coords = t @ '' [Source '' @ str_int sn @ '' @ '' @ coords @ '']''"

definition spec_impulse_title :: "string \<Rightarrow> string \<Rightarrow> string" where
  "spec_impulse_title t coords = t @ '' ['' @ bf_z @ '' @ '' @ coords @ '']''"

section \<open>Properties of the labels\<close>

lemma fmt_02f_123: "fmt_02f (fl (123/100)) = ''1.23''"
  by code_simp

lemma fmt_02f_456: "fmt_02f (fl (114/25)) = ''4.56''"
  by code_simp

lemma str_int_3: "str_int 3 = ''3''"
  by code_simp

text \<open>
  C6. For a single trace (\<open>N = 1\<close>) with an empty amplitude unit, units \<open>xu = yu = m\<close>,
  the two-dimensional coordinates (1.23, 4.56) (the doubles nearest to these decimals),
  receiver number 3 and flag \<open>data\<close>, \<open>set_ylabel\<close> returns exactly
  \<open>Amplitude [Receiver 3 @ (1.23 m, 4.56 m)]\<close>; with all unit strings empty it returns
  \<open>Amplitude [Receiver 3 @ (1.23, 4.56)]\<close>.
\<close>

theorem C6_set_ylabel_example:
  "set_ylabel 1 (Some \<lparr>shape1 = 2, rows = [[fl (123/100), fl (456/100)]]\<rparr>) 3 ''data''
     (default_params\<lparr>xu := ''m'', yu := ''m''\<rparr>)
     = Inr ''Amplitude [Receiver 3 @ (1.23 m, 4.56 m)]''
   \<and> set_ylabel 1 (Some \<lparr>shape1 = 2, rows = [[fl (123/100), fl (456/100)]]\<rparr>) 3 ''data''
     default_params
     = Inr ''Amplitude [Receiver 3 @ (1.23, 4.56)]''"
  by (simp add: set_ylabel_def flag_label_def default_params_def with_row_def point_row_def
        py_index_def py_pos_def fmt_02f_123 fmt_02f_456 str_int_3)

section \<open>Properties of the cursor\<close>

lemma render_wave_keeps:
  "render_wave cmaps a ex pp = (e, a', ex') \<Longrightarrow>
     source_index a' = source_index a \<and> sourceNumbers ex' = sourceNumbers ex"
  by (auto simp: render_wave_def Let_def split: sum.splits)

lemma next_wave_cursor:
  assumes "sourceNumbers ex \<noteq> []"
  shows "source_index (fst (snd (next_wave cmaps a ex pp)))
           = (source_index a + 1) mod int (length (sourceNumbers ex))"
    and "sourceNumbers (snd (snd (next_wave cmaps a ex pp))) = sourceNumbers ex"
proof -
  let ?a = "a\<lparr>source_index := (source_index a + 1) mod int (length (sourceNumbers ex))\<rparr>"
  obtain e a' ex' where r: "render_wave cmaps ?a ex pp = (e, a', ex')"
    by (cases "render_wave cmaps ?a ex pp") auto
  have n: "next_wave cmaps a ex pp = (e, a', ex')"
    using assms r by (simp add: next_wave_def Let_def)
  show "source_index (fst (snd (next_wave cmaps a ex pp)))
           = (source_index a + 1) mod int (length (sourceNumbers ex))"
    using render_wave_keeps [OF r] by (simp add: n)
  show "sourceNumbers (snd (snd (next_wave cmaps a ex pp))) = sourceNumbers ex"
    using render_wave_keeps [OF r] by (simp add: n)
qed

lemma previous_wave_cursor:
  assumes "sourceNumbers ex \<noteq> []"
  shows "source_index (fst (snd (previous_wave cmaps a ex pp)))
           = (source_index a - 1) mod int (length (sourceNumbers ex))"
    and "sourceNumbers (snd (snd (previous_wave cmaps a ex pp))) = sourceNumbers ex"
proof -
  let ?a = "a\<lparr>source_index := (source_index a - 1) mod int (length (sourceNumbers ex))\<rparr>"
  obtain e a' ex' where r: "render_wave cmaps ?a ex pp = (e, a', ex')"
    by (cases "render_wave cmaps ?a ex pp") auto
  have n: "previous_wave cmaps a ex pp = (e, a', ex')"
    using assms r by (simp add: previous_wave_def Let_def)
  show "source_index (fst (snd (previous_wave cmaps a ex pp)))
           = (source_index a - 1) mod int (length (sourceNumbers ex))"
    using render_wave_keeps [OF r] by (simp add: n)
  show "sourceNumbers (snd (snd (previous_wave cmaps a ex pp))) = sourceNumbers ex"
    using render_wave_keeps [OF r] by (simp add: n)
qed

lemma advance_cursor:
  assumes "sourceNumbers (snd s) \<noteq> []"
  shows "source_index (fst (advance cmaps pp s))
           = (source_index (fst s) + 1) mod int (length (sourceNumbers (snd s)))"
    and "sourceNumbers (snd (advance cmaps pp s)) = sourceNumbers (snd s)"
  using next_wave_cursor [OF assms] by (simp_all add: advance_def)

lemma retreat_cursor:
  assumes "sourceNumbers (snd s) \<noteq> []"
  shows "source_index (fst (retreat cmaps pp s))
           = (source_index (fst s) - 1) mod int (length (sourceNumbers (snd s)))"
    and "sourceNumbers (snd (retreat cmaps pp s)) = sourceNumbers (snd s)"
  using previous_wave_cursor [OF assms] by (simp_all add: retreat_def)

text \<open>
  C3. For every \<open>N \<ge> 1\<close> source numbers and every cursor \<open>c\<close> with \<open>0 \<le> c < N\<close>,
  advancing (\<^verbatim>\<open>next_wave\<close>: \<open>(c + 1) mod N\<close>) and then retreating (\<^verbatim>\<open>previous_wave\<close>:
  \<open>(c - 1) mod N\<close>), or retreating and then advancing, restores the cursor \<open>c\<close>.
\<close>

theorem C3_advance_retreat_inverse:
  assumes "1 \<le> length (sourceNumbers ex)"
    and "0 \<le> source_index a" and "source_index a < int (length (sourceNumbers ex))"
  shows "source_index (fst (retreat cmaps pp (advance cmaps pp (a, ex)))) = source_index a
       \<and> source_index (fst (advance cmaps pp (retreat cmaps pp (a, ex)))) = source_index a"
proof -
  let ?N = "int (length (sourceNumbers ex))"
  have ne: "sourceNumbers (snd (a, ex)) \<noteq> []" using assms(1) by auto
  have ne1: "sourceNumbers (snd (advance cmaps pp (a, ex))) \<noteq> []"
    using advance_cursor(2) [OF ne] ne by simp
  have ne2: "sourceNumbers (snd (retreat cmaps pp (a, ex))) \<noteq> []"
    using retreat_cursor(2) [OF ne] ne by simp
  have "source_index (fst (retreat cmaps pp (advance cmaps pp (a, ex))))
          = ((source_index a + 1) mod ?N - 1) mod ?N"
    using retreat_cursor(1) [OF ne1] advance_cursor [OF ne] by simp
  also have "\<dots> = source_index a mod ?N"
    by (simp add: mod_diff_left_eq)
  also have "\<dots> = source_index a" using assms by simp
  finally have A: "source_index (fst (retreat cmaps pp (advance cmaps pp (a, ex)))) = source_index a" .
  have "source_index (fst (advance cmaps pp (retreat cmaps pp (a, ex))))
          = ((source_index a - 1) mod ?N + 1) mod ?N"
    using advance_cursor(1) [OF ne2] retreat_cursor [OF ne] by simp
  also have "\<dots> = source_index a mod ?N"
    by (simp add: mod_add_left_eq)
  also have "\<dots> = source_index a" using assms by simp
  finally show ?thesis using A by simp
qed

theorem C3_witness:
  "1 \<le> length (sourceNumbers demo_experiment) \<and> 0 \<le> source_index demo_axes
   \<and> source_index demo_axes < int (length (sourceNumbers demo_experiment))
   \<and> source_index (fst (advance demo_cmaps default_params (demo_axes, demo_experiment))) = 0
   \<and> source_index (fst (retreat demo_cmaps default_params (advance demo_cmaps default_params (demo_axes, demo_experiment)))) = 2
   \<and> source_index (fst (advance demo_cmaps default_params (retreat demo_cmaps default_params (demo_axes, demo_experiment)))) = 2"
  using C3_advance_retreat_inverse [where ex = demo_experiment and a = demo_axes
          and cmaps = demo_cmaps and pp = default_params]
    advance_cursor(1) [where s = "(demo_axes, demo_experiment)" and cmaps = demo_cmaps
          and pp = default_params]
  by (simp add: demo_experiment_def demo_axes_def)


lemma advance_iter:
  assumes "sourceNumbers (snd s) \<noteq> []"
  shows "source_index (fst ((advance cmaps pp ^^ Suc k) s))
           = (source_index (fst s) + int (Suc k)) mod int (length (sourceNumbers (snd s)))
         \<and> sourceNumbers (snd ((advance cmaps pp ^^ Suc k) s)) = sourceNumbers (snd s)"
proof (induction k)
  case 0
  then show ?case using advance_cursor [OF assms, where cmaps = cmaps and pp = pp] by simp
next
  case (Suc k)
  define t where "t = (advance cmaps pp ^^ Suc k) s"
  define N where "N = int (length (sourceNumbers (snd s)))"
  define c where "c = source_index (fst s)"
  have IH1: "source_index (fst t) = (c + int (Suc k)) mod N"
    and IH2: "sourceNumbers (snd t) = sourceNumbers (snd s)"
    using Suc.IH unfolding t_def N_def c_def by blast+
  have ne: "sourceNumbers (snd t) \<noteq> []" using IH2 assms by simp
  have step: "(advance cmaps pp ^^ Suc (Suc k)) s = advance cmaps pp t"
    unfolding t_def by simp
  have "source_index (fst (advance cmaps pp t)) = (source_index (fst t) + 1) mod N"
    using advance_cursor(1) [OF ne, where cmaps = cmaps and pp = pp] IH2
    unfolding N_def by simp
  also have "\<dots> = ((c + int (Suc k)) mod N + 1) mod N"
    by (simp only: IH1)
  also have "\<dots> = (c + int (Suc k) + 1) mod N"
    by (rule mod_add_left_eq)
  also have "c + int (Suc k) + 1 = c + int (Suc (Suc k))"
    by simp
  finally have A: "source_index (fst (advance cmaps pp t)) = (c + int (Suc (Suc k))) mod N" .
  have B: "sourceNumbers (snd (advance cmaps pp t)) = sourceNumbers (snd s)"
    using advance_cursor(2) [OF ne, where cmaps = cmaps and pp = pp] IH2 by simp
  show ?case
    unfolding step using A B unfolding N_def c_def by blast
qed

text \<open>
  C4. For every \<open>N \<ge> 1\<close> and every cursor \<open>c\<close> with \<open>0 \<le> c < N\<close>, advancing exactly
  \<open>N\<close> times returns the cursor to \<open>c\<close>.
\<close>

theorem C4_advance_cycle:
  assumes "1 \<le> length (sourceNumbers ex)"
    and "0 \<le> source_index a" and "source_index a < int (length (sourceNumbers ex))"
  shows "source_index (fst ((advance cmaps pp ^^ length (sourceNumbers ex)) (a, ex))) = source_index a"
proof -
  have ne: "sourceNumbers (snd (a, ex)) \<noteq> []" using assms(1) by auto
  obtain k where k: "length (sourceNumbers ex) = Suc k"
    using assms(1) by (cases "length (sourceNumbers ex)") auto
  show ?thesis using advance_iter [OF ne, where cmaps = cmaps and pp = pp and k = k] assms k by simp
qed


theorem C4_witness:
  "1 \<le> length (sourceNumbers demo_experiment) \<and> 0 \<le> source_index demo_axes
   \<and> source_index demo_axes < int (length (sourceNumbers demo_experiment))
   \<and> source_index (fst ((advance demo_cmaps default_params ^^ 3) (demo_axes, demo_experiment))) = 2"
  using C4_advance_cycle [where ex = demo_experiment and a = demo_axes
          and cmaps = demo_cmaps and pp = default_params]
  by (simp add: demo_experiment_def demo_axes_def eval_nat_numeral)

text \<open>The arrow keys run these commands on the dataset on display.\<close>

lemma key_right_advances:
  assumes "py_pos (length (experiments v)) (index v) = Inr k"
    and "experiments v ! k = Some ex"
  shows "fig_ax (snd (process_key_waves cmaps ''right'' v pp)) = fst (advance cmaps pp (fig_ax v, ex))"
    and "fig_ax (snd (process_key_waves cmaps ''left'' v pp)) = fst (retreat cmaps pp (fig_ax v, ex))"
  using assms
  by (auto simp: process_key_waves_def advance_def retreat_def split: prod.splits)

section \<open>Properties of the rendering functions\<close>

subsection \<open>What the calls write into the array\<close>

lemma arr_wiggle_finish: "arr (wiggle_finish r xvals title pp) = arr r"
  by (simp add: wiggle_finish_def Let_def split: option.splits)

lemma fills_need_no_lookup: "get_cmap_colors cmaps name mode True \<noteq> Inl e"
  by (simp add: get_cmap_colors_def)

lemma get_cmap_colors_error: "get_cmap_colors cmaps name mode fills = Inl e \<Longrightarrow> e = ValueError"
  by (auto simp: get_cmap_colors_def plt_get_cmap_def split: if_splits)

lemma arr_wiggle_single: "arr (wiggle_single cmaps d X xvals pp) = X"
  by (simp add: wiggle_single_def split: sum.splits cmap_colors.splits list.splits)

lemma arr_wiggle_raster: "arr (wiggle_raster cmaps d X xvals interval pp) = X"
  by (simp add: wiggle_raster_def split: sum.splits)

lemma arr_wiggle_lines:
  "arr (wiggle_lines cmaps d X xvals interval pp) =
     (case get_cmap_colors cmaps (wiggle_colormap pp) (view_mode pp) True of
        Inr (Fills p n) \<Rightarrow> (case rescale X of Inl e \<Rightarrow> X | Inr X' \<Rightarrow> X')
      | _ \<Rightarrow> X)"
  by (simp add: wiggle_lines_def split: cmap_colors.splits sum.splits prod.splits)

lemma rescale_zero: "scale_lines X = Inr 0 \<Longrightarrow> rescale X = Inr X"
  by (simp add: rescale_def)

lemma rescale_nonzero:
  "scale_lines X = Inr s \<Longrightarrow> s \<noteq> 0 \<Longrightarrow> rescale X = Inr (map (map (\<lambda>x. fl (x / s))) X)"
  by (simp add: rescale_def idiv_def)

lemma rescale_unchanged_or_divided:
  "rescale X = Inr X' \<Longrightarrow>
     (scale_lines X = Inr 0 \<and> X' = X)
     \<or> (\<exists>s. scale_lines X = Inr s \<and> s \<noteq> 0 \<and> X' = map (map (\<lambda>x. fl (x / s))) X)"
  by (auto simp: rescale_def idiv_def split: sum.splits if_splits)

lemma plotWiggles_arr_outside:
  assumes "length X \<le> 1 \<or> 70 < length X"
  shows "arr (plotWiggles cmaps ax X xvals interval coordinates title flag pp) = X"
  using assms
  by (auto simp: plotWiggles_def Let_def arr_wiggle_finish arr_wiggle_single arr_wiggle_raster
           split: list.splits sum.splits)

lemma plotWiggles_arr_zero:
  assumes "scale_lines X = Inr 0"
  shows "arr (plotWiggles cmaps ax X xvals interval coordinates title flag pp) = X"
  using assms
  by (auto simp: plotWiggles_def Let_def arr_wiggle_finish arr_wiggle_single arr_wiggle_raster
                 arr_wiggle_lines rescale_zero
           split: list.splits sum.splits cmap_colors.splits)

lemma err_wiggle_finish_None:
  "err (wiggle_finish r xvals title pp) = None \<Longrightarrow> err r = None"
  by (auto simp: wiggle_finish_def Let_def split: option.splits if_splits)

lemma wiggle_lines_returns:
  "err (wiggle_lines cmaps d X xvals interval pp) = None \<Longrightarrow>
     \<exists>X'. rescale X = Inr X' \<and> arr (wiggle_lines cmaps d X xvals interval pp) = X'"
  by (auto simp: wiggle_lines_def split: cmap_colors.splits sum.splits prod.splits)

lemma plotWiggles_arr_lines:
  assumes "err (plotWiggles cmaps ax X xvals interval coordinates title flag pp) = None"
    and "2 \<le> length X" and "length X \<le> 70"
    and "scale_lines X = Inr s" and "s \<noteq> 0"
  shows "arr (plotWiggles cmaps ax X xvals interval coordinates title flag pp)
           = map (map (\<lambda>x. fl (x / s))) X"
proof -
  obtain i iv where iv: "interval = i # iv"
    using assms(1) by (cases interval) (auto simp: plotWiggles_def)
  obtain yl where yl: "set_ylabel (length X) coordinates i flag pp = Inr yl"
    using assms(1) iv
    by (cases "set_ylabel (length X) coordinates i flag pp") (auto simp: plotWiggles_def)
  define d where "d = (if length X \<le> 18
      then [SetYLabel yl, SetYTicks interval, SetYTickLabels interval, ShowYTicks]
      else [SetYLabel yl])"
  have pw: "plotWiggles cmaps ax X xvals interval coordinates title flag pp
              = wiggle_finish (wiggle_lines cmaps d X xvals interval pp) xvals title pp"
    using assms(2,3) iv yl by (auto simp: plotWiggles_def Let_def d_def)
  have "err (wiggle_lines cmaps d X xvals interval pp) = None"
    using assms(1) unfolding pw by (rule err_wiggle_finish_None)
  then obtain X' where X': "rescale X = Inr X'" "arr (wiggle_lines cmaps d X xvals interval pp) = X'"
    using wiggle_lines_returns by blast
  show ?thesis
    unfolding pw arr_wiggle_finish X'(2)
    using X'(1) rescale_nonzero [OF assms(4,5)] by simp
qed

subsection \<open>The image\<close>

lemma image_viewer_2d:
  assumes "image_colormap pp \<in> set cmaps"
  shows "image_viewer cmaps ax volume method alpha atol btol pp X Y None tau =
     \<lparr>ierr = None, iarr = clip_above (vmax pp) (vmin pp) volume,
      idrawn = [GridOff, SetXLabel (unit_label (xlabel pp) (xu pp)),
                SetYLabel (unit_label (ylabel pp) (yu pp)),
                ImageMesh X Y (clip_above (vmax pp) (vmin pp) volume) (vmin pp) (vmax pp)
                  (Mpl (image_colormap pp)) (shading pp)]
               @ (if colorbar pp then [Colorbar (tau \<noteq> None)] else [])
               @ [SetTitleAlpha alpha]\<rparr>"
  using assms by (simp add: image_viewer_def plt_get_cmap_def Let_def)

lemma image_viewer_unregistered:
  assumes "image_colormap pp \<notin> set cmaps"
  shows "ierr (image_viewer cmaps ax volume method alpha atol btol pp X Y None tau)
           = Some ValueError"
    and "iarr (image_viewer cmaps ax volume method alpha atol btol pp X Y None tau) = volume"
  using assms by (simp_all add: image_viewer_def plt_get_cmap_def Let_def)

lemma image_viewer_returns:
  "ierr (image_viewer cmaps ax volume method alpha atol btol pp X Y Z tau) = None
     \<longleftrightarrow> Z = None \<and> image_colormap pp \<in> set cmaps"
  by (cases Z) (simp_all add: image_viewer_def plt_get_cmap_def Let_def)

lemma image_viewer_3d_arr:
  "iarr (image_viewer cmaps ax volume method alpha atol btol pp X Y (Some z) tau) = volume"
  by (simp add: image_viewer_def Let_def)

lemma map_mask_assign_row: "\<forall>x \<in> set row. x \<le> hi \<Longrightarrow> map (mask_assign hi lo) row = row"
  by (induction row) (auto simp: mask_assign_def)

lemma map_mask_assign_id:
  "\<forall>row \<in> set img. \<forall>x \<in> set row. x \<le> hi \<Longrightarrow> map (map (mask_assign hi lo)) img = img"
  by (induction img) (auto simp: map_mask_assign_row)

text \<open>
  C10. In two-dimensional image rendering \<^verbatim>\<open>image_viewer\<close> replaces every value strictly
  greater than \<^verbatim>\<open>plotParams['vmax']\<close> with \<^verbatim>\<open>plotParams['vmin']\<close> (not with \<open>vmax\<close>)
  before drawing, and the replacement is made in the array that was passed in: when the
  call returns, the array after the call and the array handed to \<^verbatim>\<open>pcolormesh\<close> are both
  the clipped one. The call returns exactly when the image colormap is a registered name;
  otherwise it raises before it writes or draws.
\<close>

theorem C10_image_viewer_clips_in_place:
  "(ierr (image_viewer cmaps ax (A2 img) meth alpha atol btol pp X Y None tau) = None \<longrightarrow>
      iarr (image_viewer cmaps ax (A2 img) meth alpha atol btol pp X Y None tau)
        = A2 (map (map (\<lambda>x. if vmax pp < x then vmin pp else x)) img)
      \<and> ImageMesh X Y (A2 (map (map (\<lambda>x. if vmax pp < x then vmin pp else x)) img))
           (vmin pp) (vmax pp) (Mpl (image_colormap pp)) (shading pp)
         \<in> set (idrawn (image_viewer cmaps ax (A2 img) meth alpha atol btol pp X Y None tau)))
   \<and> (image_colormap pp \<in> set cmaps \<longrightarrow>
      ierr (image_viewer cmaps ax (A2 img) meth alpha atol btol pp X Y None tau) = None)
   \<and> (image_colormap pp \<notin> set cmaps \<longrightarrow>
      ierr (image_viewer cmaps ax (A2 img) meth alpha atol btol pp X Y None tau)
        = Some ValueError
      \<and> iarr (image_viewer cmaps ax (A2 img) meth alpha atol btol pp X Y None tau) = A2 img)"
proof -
  have m: "mask_assign (vmax pp) (vmin pp) = (\<lambda>x. if vmax pp < x then vmin pp else x)"
    by (rule ext) (simp add: mask_assign_def)
  show ?thesis
  proof (cases "image_colormap pp \<in> set cmaps")
    case True
    then show ?thesis by (simp add: image_viewer_2d m)
  next
    case False
    then show ?thesis by (simp add: image_viewer_unregistered)
  qed
qed

theorem C10_witness:
  "image_colormap default_params \<in> set demo_cmaps
   \<and> ierr (image_viewer demo_cmaps [] (A2 [[1/2, 2], [1, 3]]) ''svd'' 0 0 0 default_params
           (A2 [[0, 0], [1, 1]]) (A2 [[0, 1], [0, 1]]) None None) = None
   \<and> iarr (image_viewer demo_cmaps [] (A2 [[1/2, 2], [1, 3]]) ''svd'' 0 0 0 default_params
           (A2 [[0, 0], [1, 1]]) (A2 [[0, 1], [0, 1]]) None None)
       = A2 [[1/2, 0], [1, 0]]
   \<and> image_colormap (default_params\<lparr>image_colormap := ''grays''\<rparr>) \<notin> set demo_cmaps
   \<and> ierr (image_viewer demo_cmaps [] (A2 [[1/2, 2], [1, 3]]) ''svd'' 0 0 0
           (default_params\<lparr>image_colormap := ''grays''\<rparr>)
           (A2 [[0, 0], [1, 1]]) (A2 [[0, 1], [0, 1]]) None None) = Some ValueError
   \<and> iarr (image_viewer demo_cmaps [] (A2 [[1/2, 2], [1, 3]]) ''svd'' 0 0 0
           (default_params\<lparr>image_colormap := ''grays''\<rparr>)
           (A2 [[0, 0], [1, 1]]) (A2 [[0, 1], [0, 1]]) None None) = A2 [[1/2, 2], [1, 3]]"
  using C10_image_viewer_clips_in_place [where cmaps = demo_cmaps and ax = "[]"
          and img = "[[1/2, 2], [1, 3]]" and meth = "''svd''" and alpha = 0 and atol = 0
          and btol = 0 and pp = default_params and X = "A2 [[0, 0], [1, 1]]"
          and Y = "A2 [[0, 1], [0, 1]]" and tau = None]
    C10_image_viewer_clips_in_place [where cmaps = demo_cmaps and ax = "[]"
          and img = "[[1/2, 2], [1, 3]]" and meth = "''svd''" and alpha = 0 and atol = 0
          and btol = 0 and pp = "default_params\<lparr>image_colormap := ''grays''\<rparr>"
          and X = "A2 [[0, 0], [1, 1]]" and Y = "A2 [[0, 1], [0, 1]]" and tau = None]
  by (simp add: default_params_def demo_cmaps_def)

subsection \<open>What the calls draw\<close>

lemma draw_traces_cmds:
  "draw_traces xvals interval X p q ns = (None, cmds) \<Longrightarrow>
     cmds = concat (map (\<lambda>n. trace_cmds xvals (interval ! n) (X ! n) p q) ns)"
proof (induction ns arbitrary: cmds)
  case Nil
  then show ?case by simp
next
  case (Cons n ns)
  then show ?case
    by (auto split: if_splits prod.splits)
qed

lemma draw_traces_returns:
  "\<forall>n \<in> set ns. n < length interval \<Longrightarrow> fst (draw_traces xvals interval X p q ns) = None"
  by (induction ns) (auto split: prod.splits)





lemma traces_plot:
  "n \<in> set ns \<Longrightarrow>
     Plot xvals (offset (f n) (g n)) \<in> set (concat (map (\<lambda>n. trace_cmds xvals (f n) (g n) p q) ns))"
  by (induction ns) (auto simp: trace_cmds_def Let_def)

lemma wiggle_finish_returns:
  assumes "err (wiggle_finish r xvals title pp) = None"
  shows "err r = None \<and> xvals \<noteq> []
         \<and> drawn (wiggle_finish r xvals title pp) = drawn r @ time_axis xvals title pp"
  using assms
  by (auto simp: wiggle_finish_def time_axis_def Let_def split: option.splits if_splits)

lemma wiggle_lines_drawn:
  assumes "err (wiggle_lines cmaps d X xvals interval pp) = None"
  shows "\<exists>p q. drawn (wiggle_lines cmaps d X xvals interval pp)
           = d @ concat (map (\<lambda>n. trace_cmds xvals (interval ! n)
                                     (arr (wiggle_lines cmaps d X xvals interval pp) ! n) p q)
                             [0..<length X])"
  using assms
  by (auto simp: wiggle_lines_def split: cmap_colors.splits sum.splits prod.splits
           dest: draw_traces_cmds)

lemma wiggle_raster_drawn:
  assumes "err (wiggle_raster cmaps d X xvals interval pp) = None"
  shows "\<exists>s cm. amax (map abs (concat X)) = Inr s
           \<and> get_cmap_colors cmaps (wiggle_colormap pp) (view_mode pp) False = Inr cm
           \<and> drawn (wiggle_raster cmaps d X xvals interval pp)
               = d @ [PColorMesh xvals interval X (fl (- s * pclip pp)) (fl (s * pclip pp)) cm]"
  using assms by (auto simp: wiggle_raster_def split: sum.splits)

lemma wiggle_single_drawn:
  assumes "err (wiggle_single cmaps d X xvals pp) = None"
  shows "\<exists>x0 rest p q. X = x0 # rest
           \<and> drawn (wiggle_single cmaps d X xvals pp)
               = d @ [OffsetTextX, Plot xvals x0,
                      FillBetween xvals 0 x0 (map (\<lambda>y. 0 < y) x0) p,
                      FillBetween xvals 0 x0 (map (\<lambda>y. y < 0) x0) q,
                      SciTickFormat]"
  using assms by (auto simp: wiggle_single_def split: sum.splits cmap_colors.splits list.splits)

lemma plotWiggles_cases:
  assumes "err (plotWiggles cmaps ax X xvals interval coordinates title flag pp) = None"
  obtains yl where
    "plotWiggles cmaps ax X xvals interval coordinates title flag pp =
       wiggle_finish
         (if length X > 1 then
            if length X \<le> 18 then
              wiggle_lines cmaps [SetYLabel yl, SetYTicks interval, SetYTickLabels interval, ShowYTicks]
                X xvals interval pp
            else if length X \<le> 70 then wiggle_lines cmaps [SetYLabel yl] X xvals interval pp
            else wiggle_raster cmaps [SetYLabel yl] X xvals interval pp
          else wiggle_single cmaps [SetYLabel yl] X xvals pp)
         xvals title pp"
proof -
  obtain i iv where iv: "interval = i # iv"
    using assms by (cases interval) (auto simp: plotWiggles_def)
  obtain yl where yl: "set_ylabel (length X) coordinates i flag pp = Inr yl"
    using assms iv
    by (cases "set_ylabel (length X) coordinates i flag pp") (auto simp: plotWiggles_def)
  show ?thesis
    by (rule that [of yl]) (simp add: plotWiggles_def Let_def iv yl)
qed

subsection \<open>When a waveform plot is completed\<close>

lemma scale_lines_defined:
  assumes "X \<noteq> []" and "[] \<notin> set X"
  shows "\<exists>s. scale_lines X = Inr s"
  using assms by (cases X) (auto simp: scale_lines_def ptp_rows_def amax_def)

lemma rescale_defined:
  assumes "X \<noteq> []" and "[] \<notin> set X"
  shows "\<exists>X'. rescale X = Inr X'"
  using scale_lines_defined [OF assms] by (auto simp: rescale_def idiv_def)

lemma rescale_length: "rescale X = Inr X' \<Longrightarrow> length X' = length X"
  by (auto dest: rescale_unchanged_or_divided)

lemma wiggle_lines_completes:
  assumes "X \<noteq> []" and "[] \<notin> set X" and "length X \<le> length interval"
    and "get_cmap_colors cmaps (wiggle_colormap pp) (view_mode pp) True = Inr (Fills p q)"
  shows "err (wiggle_lines cmaps d X xvals interval pp) = None"
proof -
  obtain X' where X': "rescale X = Inr X'" using rescale_defined [OF assms(1,2)] by blast
  obtain e cmds where dt: "draw_traces xvals interval X' p q [0..<length X] = (e, cmds)"
    by (cases "draw_traces xvals interval X' p q [0..<length X]") auto
  have "fst (draw_traces xvals interval X' p q [0..<length X]) = None"
    by (rule draw_traces_returns) (use assms(3) in auto)
  then have "e = None" using dt by simp
  then show ?thesis
    by (simp add: wiggle_lines_def assms(4) X' dt)
qed

lemma wiggle_raster_completes:
  assumes "X \<noteq> []" and "[] \<notin> set X"
    and "get_cmap_colors cmaps (wiggle_colormap pp) (view_mode pp) False = Inr cm"
  shows "err (wiggle_raster cmaps d X xvals interval pp) = None"
proof -
  obtain x0 rest where X: "X = x0 # rest" using assms(1) by (cases X) auto
  then have "x0 \<noteq> []" using assms(2) by auto
  then have "concat X \<noteq> []" using X by simp
  then show ?thesis
    by (cases "map abs (concat X)") (auto simp: wiggle_raster_def amax_def assms(3))
qed

lemma set_ylabel_stack:
  "flag_label flag = Some lbl \<Longrightarrow> N \<noteq> 1 \<Longrightarrow> set_ylabel N coordinates i flag pp = Inr lbl"
  by (simp add: set_ylabel_def)

text \<open>
  A stack of at least two traces is drawn to the end when the flag is known, no trace is
  empty, every trace has its number, the time axis is not empty, the wiggle colormap is
  one of the three names of \<^verbatim>\<open>get_cmap_colors\<close> and, for more than 70 traces, the lookup of
  the colormap succeeds.
\<close>

lemma plotWiggles_completes:
  assumes "flag_label flag = Some lbl" and "2 \<le> length X" and "[] \<notin> set X"
    and "length X \<le> length interval" and "xvals \<noteq> []"
    and "get_cmap_colors cmaps (wiggle_colormap pp) (view_mode pp) True = Inr (Fills p q)"
    and "70 < length X \<Longrightarrow>
           get_cmap_colors cmaps (wiggle_colormap pp) (view_mode pp) False = Inr cm"
  shows "err (plotWiggles cmaps ax X xvals interval coordinates title flag pp) = None"
proof -
  have ne: "X \<noteq> []" using assms(2) by auto
  obtain i iv where iv: "interval = i # iv"
    using assms(2,4) by (cases interval) auto
  have yl: "set_ylabel (length X) coordinates i flag pp = Inr lbl"
    using set_ylabel_stack [OF assms(1)] assms(2) by simp
  have fin: "\<And>r. err r = None \<Longrightarrow> err (wiggle_finish r xvals title pp) = None"
    using assms(5) by (simp add: wiggle_finish_def Let_def)
  have wl: "\<And>d. err (wiggle_lines cmaps d X xvals (i # iv) pp) = None"
    using wiggle_lines_completes [OF ne assms(3) _ assms(6)] assms(4) iv by simp
  have wr: "\<And>d. 70 < length X \<Longrightarrow> err (wiggle_raster cmaps d X xvals (i # iv) pp) = None"
    using wiggle_raster_completes [OF ne assms(3) assms(7)] by simp
  show ?thesis
    using assms(2)
    by (simp add: plotWiggles_def Let_def iv yl fin wl wr)
qed

text \<open>
  With the default name \<open>grays\<close> and a registry that does not have it, a stack of more
  than 70 traces is not drawn: the lookup of line 66 raises.
\<close>

lemma raster_lookup_fails:
  assumes "flag_label flag = Some lbl" and "70 < length X" and "[] \<notin> set X"
    and "interval \<noteq> []" and "wiggle_colormap pp = ''grays''" and "''grays'' \<notin> set cmaps"
  shows "err (plotWiggles cmaps ax X xvals interval coordinates title flag pp) = Some ValueError"
proof -
  obtain i iv where iv: "interval = i # iv"
    using assms(4) by (cases interval) auto
  have yl: "set_ylabel (length X) coordinates i flag pp = Inr lbl"
    using set_ylabel_stack [OF assms(1)] assms(2) by simp
  have g: "get_cmap_colors cmaps (wiggle_colormap pp) (view_mode pp) False = Inl ValueError"
    using assms(5,6) by (simp add: get_cmap_colors_def plt_get_cmap_def)
  have "err (wiggle_raster cmaps [SetYLabel lbl] X xvals (i # iv) pp) = Some ValueError"
    by (cases "amax (map abs (concat X))") (simp_all add: wiggle_raster_def g amax_def split: list.splits)
  then show ?thesis
    using assms(2) by (simp add: plotWiggles_def Let_def iv yl wiggle_finish_def)
qed

subsection \<open>Line plots and the colour mesh\<close>


lemma stacked_lines_traces:
  assumes "length A = N"
  shows "stacked_lines xvals interval A
           (d @ concat (map (\<lambda>n. trace_cmds xvals (interval ! n) (A ! n) p q) [0..<N]) @ t)"
  unfolding stacked_lines_def list_all_iff
  using assms traces_plot [of _ "[0..<N]" xvals "\<lambda>n. interval ! n" "\<lambda>n. A ! n" p q]
  by auto

lemma lines_drawn:
  assumes "err (wiggle_finish (wiggle_lines cmaps d X xvals interval pp) xvals title pp) = None"
  shows "\<exists>p q. drawn (wiggle_finish (wiggle_lines cmaps d X xvals interval pp) xvals title pp)
           = d @ concat (map (\<lambda>n. trace_cmds xvals (interval ! n)
                 (arr (wiggle_finish (wiggle_lines cmaps d X xvals interval pp) xvals title pp) ! n)
                 p q) [0..<length X]) @ time_axis xvals title pp"
    and "length (arr (wiggle_finish (wiggle_lines cmaps d X xvals interval pp) xvals title pp))
           = length X"
proof -
  let ?r = "wiggle_lines cmaps d X xvals interval pp"
  have r: "err ?r = None" "drawn (wiggle_finish ?r xvals title pp) = drawn ?r @ time_axis xvals title pp"
    using wiggle_finish_returns [OF assms] by blast+
  obtain p q where pq: "drawn ?r = d @ concat (map (\<lambda>n. trace_cmds xvals (interval ! n)
                                     (arr ?r ! n) p q) [0..<length X])"
    using wiggle_lines_drawn [OF r(1)] by blast
  show "\<exists>p q. drawn (wiggle_finish ?r xvals title pp)
           = d @ concat (map (\<lambda>n. trace_cmds xvals (interval ! n)
                 (arr (wiggle_finish ?r xvals title pp) ! n) p q) [0..<length X])
             @ time_axis xvals title pp"
    unfolding r(2) arr_wiggle_finish using pq by auto
  obtain X' where "rescale X = Inr X'" "arr ?r = X'"
    using wiggle_lines_returns [OF r(1)] by blast
  then show "length (arr (wiggle_finish ?r xvals title pp)) = length X"
    by (simp add: arr_wiggle_finish rescale_length)
qed

lemma plotWiggles_lines_shape:
  assumes "err (plotWiggles cmaps ax X xvals interval coordinates title flag pp) = None"
    and "2 \<le> length X" and "length X \<le> 70"
  shows "\<exists>yl p q. drawn (plotWiggles cmaps ax X xvals interval coordinates title flag pp)
           = (if length X \<le> 18
              then [SetYLabel yl, SetYTicks interval, SetYTickLabels interval, ShowYTicks]
              else [SetYLabel yl])
             @ concat (map (\<lambda>n. trace_cmds xvals (interval ! n)
                 (arr (plotWiggles cmaps ax X xvals interval coordinates title flag pp) ! n) p q)
                 [0..<length X])
             @ time_axis xvals title pp"
    and "length (arr (plotWiggles cmaps ax X xvals interval coordinates title flag pp)) = length X"
proof -
  obtain yl where pw0: "plotWiggles cmaps ax X xvals interval coordinates title flag pp =
       wiggle_finish
         (if length X > 1 then
            if length X \<le> 18 then
              wiggle_lines cmaps [SetYLabel yl, SetYTicks interval, SetYTickLabels interval, ShowYTicks]
                X xvals interval pp
            else if length X \<le> 70 then wiggle_lines cmaps [SetYLabel yl] X xvals interval pp
            else wiggle_raster cmaps [SetYLabel yl] X xvals interval pp
          else wiggle_single cmaps [SetYLabel yl] X xvals pp)
         xvals title pp"
    using assms(1) by (rule plotWiggles_cases)
  define d where "d = (if length X \<le> 18
              then [SetYLabel yl, SetYTicks interval, SetYTickLabels interval, ShowYTicks]
              else [SetYLabel yl])"
  have pw: "plotWiggles cmaps ax X xvals interval coordinates title flag pp
              = wiggle_finish (wiggle_lines cmaps d X xvals interval pp) xvals title pp"
    unfolding pw0 d_def using assms(2,3) by simp
  have e: "err (wiggle_finish (wiggle_lines cmaps d X xvals interval pp) xvals title pp) = None"
    using assms(1) unfolding pw .
  show "length (arr (plotWiggles cmaps ax X xvals interval coordinates title flag pp)) = length X"
    unfolding pw by (rule lines_drawn(2) [OF e])
  obtain p q where "drawn (wiggle_finish (wiggle_lines cmaps d X xvals interval pp) xvals title pp)
           = d @ concat (map (\<lambda>n. trace_cmds xvals (interval ! n)
                 (arr (wiggle_finish (wiggle_lines cmaps d X xvals interval pp) xvals title pp) ! n)
                 p q) [0..<length X]) @ time_axis xvals title pp"
    using lines_drawn(1) [OF e] by blast
  then show "\<exists>yl p q. drawn (plotWiggles cmaps ax X xvals interval coordinates title flag pp)
           = (if length X \<le> 18
              then [SetYLabel yl, SetYTicks interval, SetYTickLabels interval, ShowYTicks]
              else [SetYLabel yl])
             @ concat (map (\<lambda>n. trace_cmds xvals (interval ! n)
                 (arr (plotWiggles cmaps ax X xvals interval coordinates title flag pp) ! n) p q)
                 [0..<length X])
             @ time_axis xvals title pp"
    unfolding pw d_def by blast
qed

lemma plotWiggles_raster_shape:
  assumes "err (plotWiggles cmaps ax X xvals interval coordinates title flag pp) = None"
    and "70 < length X"
  shows "\<exists>yl lo hi cm. drawn (plotWiggles cmaps ax X xvals interval coordinates title flag pp)
           = [SetYLabel yl, PColorMesh xvals interval X lo hi cm] @ time_axis xvals title pp"
proof -
  obtain yl where pw0: "plotWiggles cmaps ax X xvals interval coordinates title flag pp =
       wiggle_finish
         (if length X > 1 then
            if length X \<le> 18 then
              wiggle_lines cmaps [SetYLabel yl, SetYTicks interval, SetYTickLabels interval, ShowYTicks]
                X xvals interval pp
            else if length X \<le> 70 then wiggle_lines cmaps [SetYLabel yl] X xvals interval pp
            else wiggle_raster cmaps [SetYLabel yl] X xvals interval pp
          else wiggle_single cmaps [SetYLabel yl] X xvals pp)
         xvals title pp"
    using assms(1) by (rule plotWiggles_cases)
  have pw: "plotWiggles cmaps ax X xvals interval coordinates title flag pp
              = wiggle_finish (wiggle_raster cmaps [SetYLabel yl] X xvals interval pp) xvals title pp"
    unfolding pw0 using assms(2) by simp
  have r: "err (wiggle_raster cmaps [SetYLabel yl] X xvals interval pp) = None"
    "drawn (wiggle_finish (wiggle_raster cmaps [SetYLabel yl] X xvals interval pp) xvals title pp)
       = drawn (wiggle_raster cmaps [SetYLabel yl] X xvals interval pp) @ time_axis xvals title pp"
    using wiggle_finish_returns [of "wiggle_raster cmaps [SetYLabel yl] X xvals interval pp" xvals title pp]
      assms(1) unfolding pw by blast+
  show ?thesis
    unfolding pw r(2) using wiggle_raster_drawn [OF r(1)] by auto
qed

lemma plotWiggles_single_shape:
  assumes "err (plotWiggles cmaps ax X xvals interval coordinates title flag pp) = None"
    and "length X \<le> 1"
  shows "\<exists>yl x0 p q. X = [x0]
           \<and> drawn (plotWiggles cmaps ax X xvals interval coordinates title flag pp)
               = [SetYLabel yl, OffsetTextX, Plot xvals x0,
                  FillBetween xvals 0 x0 (map (\<lambda>y. 0 < y) x0) p,
                  FillBetween xvals 0 x0 (map (\<lambda>y. y < 0) x0) q,
                  SciTickFormat] @ time_axis xvals title pp"
proof -
  obtain yl where pw0: "plotWiggles cmaps ax X xvals interval coordinates title flag pp =
       wiggle_finish
         (if length X > 1 then
            if length X \<le> 18 then
              wiggle_lines cmaps [SetYLabel yl, SetYTicks interval, SetYTickLabels interval, ShowYTicks]
                X xvals interval pp
            else if length X \<le> 70 then wiggle_lines cmaps [SetYLabel yl] X xvals interval pp
            else wiggle_raster cmaps [SetYLabel yl] X xvals interval pp
          else wiggle_single cmaps [SetYLabel yl] X xvals pp)
         xvals title pp"
    using assms(1) by (rule plotWiggles_cases)
  have pw: "plotWiggles cmaps ax X xvals interval coordinates title flag pp
              = wiggle_finish (wiggle_single cmaps [SetYLabel yl] X xvals pp) xvals title pp"
    unfolding pw0 using assms(2) by simp
  have r: "err (wiggle_single cmaps [SetYLabel yl] X xvals pp) = None"
    "drawn (wiggle_finish (wiggle_single cmaps [SetYLabel yl] X xvals pp) xvals title pp)
       = drawn (wiggle_single cmaps [SetYLabel yl] X xvals pp) @ time_axis xvals title pp"
    using wiggle_finish_returns [of "wiggle_single cmaps [SetYLabel yl] X xvals pp" xvals title pp]
      assms(1) unfolding pw by blast+
  obtain x0 rest p q where s: "X = x0 # rest"
    "drawn (wiggle_single cmaps [SetYLabel yl] X xvals pp)
       = [SetYLabel yl] @ [OffsetTextX, Plot xvals x0,
                      FillBetween xvals 0 x0 (map (\<lambda>y. 0 < y) x0) p,
                      FillBetween xvals 0 x0 (map (\<lambda>y. y < 0) x0) q,
                      SciTickFormat]"
    using wiggle_single_drawn [OF r(1)] by blast
  have "rest = []" using s(1) assms(2) by simp
  then show ?thesis
    unfolding pw r(2) s(2) using s(1) by auto
qed

lemma fl_5: "fl 5 = 5"
  by code_simp

lemma fl_6: "fl 6 = 6"
  by code_simp


text \<open>
  A single trace goes the other way (lines 541-548): it is drawn about zero, not
  displaced by its number, and no tick labels are set.
\<close>

lemma single_trace_drawing:
  "err (plotWiggles demo_cmaps [] [[0, 1, 0]] [0, 1, 2] [5] None ''Data'' ''data''
          default_params) = None
   \<and> \<not> list_ex is_tick_labels
          (drawn (plotWiggles demo_cmaps [] [[0, 1, 0]] [0, 1, 2] [5] None ''Data'' ''data''
                    default_params))
   \<and> \<not> stacked_lines [0, 1, 2] [5]
          (arr (plotWiggles demo_cmaps [] [[0, 1, 0]] [0, 1, 2] [5] None ''Data'' ''data''
                  default_params))
          (drawn (plotWiggles demo_cmaps [] [[0, 1, 0]] [0, 1, 2] [5] None ''Data'' ''data''
                    default_params))"
  by (simp add: plotWiggles_def set_ylabel_def flag_label_def default_params_def
        wiggle_single_def get_cmap_colors_def wiggle_finish_def stacked_lines_def offset_def
        fl_5 fl_6 Let_def)

text \<open>
  With the default parameters and a registry without the name \<open>grays\<close>, the 71 traces
  are not drawn at all.
\<close>

lemma default_raster_raises:
  "err (plotWiggles demo_cmaps [] (demo_stack 71) [0, 1] (demo_numbers 71) None ''Data'' ''data''
          default_params) = Some ValueError"
  by (rule raster_lookup_fails [where lbl = "''Receiver''"])
     (simp_all add: flag_label_def demo_stack_def demo_numbers_def default_params_def
        demo_cmaps_def)

subsection \<open>The exceptions of a waveform plot\<close>

lemma with_row_error: "with_row P i k f = Inl e \<Longrightarrow> e = IndexError"
  by (auto simp: with_row_def point_row_def py_index_def py_pos_def Let_def
           split: sum.splits if_splits)

lemma set_ylabel_error:
  "set_ylabel N coordinates i flag pp = Inl e \<Longrightarrow> e = UnboundLocalError \<or> e = IndexError"
  unfolding set_ylabel_def
  by (auto split: option.splits if_splits dest: with_row_error)

lemma scale_lines_error: "scale_lines X = Inl e \<Longrightarrow> e = ValueError"
  by (auto simp: scale_lines_def ptp_rows_def amax_def split: if_splits list.splits)

lemma rescale_error: "rescale X = Inl e \<Longrightarrow> e = ValueError"
  by (auto simp: rescale_def idiv_def split: sum.splits if_splits dest: scale_lines_error)

lemma draw_traces_error:
  "draw_traces xvals interval X p q ns = (Some e, cmds) \<Longrightarrow> e = IndexError"
  by (induction ns arbitrary: cmds) (auto split: if_splits prod.splits)

lemma wiggle_lines_error:
  "err (wiggle_lines cmaps d X xvals interval pp) = Some e \<Longrightarrow>
     e = TypeError \<or> e = ValueError \<or> e = IndexError"
  by (auto simp: wiggle_lines_def fills_need_no_lookup
           split: cmap_colors.splits sum.splits prod.splits
           dest: rescale_error draw_traces_error)

lemma wiggle_raster_error:
  "err (wiggle_raster cmaps d X xvals interval pp) = Some e \<Longrightarrow> e = ValueError"
  by (auto simp: wiggle_raster_def amax_def split: sum.splits list.splits
           dest: get_cmap_colors_error)

lemma wiggle_single_error:
  "err (wiggle_single cmaps d X xvals pp) = Some e \<Longrightarrow> e = TypeError \<or> e = IndexError"
  by (auto simp: wiggle_single_def fills_need_no_lookup
           split: sum.splits cmap_colors.splits list.splits)

lemma wiggle_finish_error:
  "err (wiggle_finish r xvals title pp) = Some e \<Longrightarrow> err r = Some e \<or> e = IndexError"
  by (auto simp: wiggle_finish_def Let_def split: option.splits if_splits)

lemma plotWiggles_error:
  assumes "err (plotWiggles cmaps ax X xvals interval coordinates title flag pp) = Some e"
  shows "e = IndexError \<or> e = ValueError \<or> e = TypeError \<or> e = UnboundLocalError"
proof (cases interval)
  case Nil
  then show ?thesis using assms by (simp add: plotWiggles_def)
next
  case (Cons i iv)
  show ?thesis
  proof (cases "set_ylabel (length X) coordinates i flag pp")
    case (Inl e')
    then show ?thesis
      using assms Cons set_ylabel_error [OF Inl] by (auto simp: plotWiggles_def)
  next
    case (Inr yl)
    then show ?thesis
      using assms Cons
      by (auto simp: plotWiggles_def Let_def split: if_splits
               dest!: wiggle_finish_error
               dest: wiggle_lines_error wiggle_raster_error wiggle_single_error)
  qed
qed

subsection \<open>Normalisation by the peak amplitude\<close>

lemma fl_0: "fl 0 = 0"
  by (simp add: fl_def)

lemma plotWiggles_ax:
  "plotWiggles cmaps ax X xvals interval coordinates title flag pp
     = plotWiggles cmaps ax' X xvals interval coordinates title flag pp"
  by (simp add: plotWiggles_def)

text \<open>
  C5. Wiggle rendering never divides by zero when it normalises by the peak amplitude:
  no call ends in the division by zero; for a single trace (\<open>N = 1\<close>) the array is not
  written at all and the trace itself is plotted; for several traces whose largest
  peak-to-peak displacement is zero the division is skipped, the array is left as it is
  and the traces are drawn unscaled.
\<close>

theorem C5_no_division_by_zero:
  "err (plotWiggles cmaps ax X xvals interval coordinates title flag pp) \<noteq> Some FloatingPointError
   \<and> (length X = 1 \<longrightarrow>
        arr (plotWiggles cmaps ax X xvals interval coordinates title flag pp) = X
        \<and> (err (plotWiggles cmaps ax X xvals interval coordinates title flag pp) = None \<longrightarrow>
             Plot xvals (X ! 0)
               \<in> set (drawn (plotWiggles cmaps ax X xvals interval coordinates title flag pp))))
   \<and> (2 \<le> length X \<and> scale_lines X = Inr 0 \<longrightarrow>
        arr (plotWiggles cmaps ax X xvals interval coordinates title flag pp) = X
        \<and> (err (plotWiggles cmaps ax X xvals interval coordinates title flag pp) = None
             \<and> length X \<le> 70 \<longrightarrow>
             stacked_lines xvals interval X
               (drawn (plotWiggles cmaps ax X xvals interval coordinates title flag pp)))
        \<and> (err (plotWiggles cmaps ax X xvals interval coordinates title flag pp) = None
             \<and> 70 < length X \<longrightarrow>
             (\<exists>lo hi cm. PColorMesh xvals interval X lo hi cm
                \<in> set (drawn (plotWiggles cmaps ax X xvals interval coordinates title flag pp)))))"
proof (intro conjI impI)
  let ?r = "plotWiggles cmaps ax X xvals interval coordinates title flag pp"
  show "err ?r \<noteq> Some FloatingPointError"
    using plotWiggles_error [of cmaps ax X xvals interval coordinates title flag pp
            FloatingPointError]
    by auto
  {
    assume N: "length X = 1"
    show "arr ?r = X" using plotWiggles_arr_outside [of X] N by simp
    assume e: "err ?r = None"
    show "Plot xvals (X ! 0) \<in> set (drawn ?r)"
      using plotWiggles_single_shape [OF e] N by auto
  }
  {
    assume z: "2 \<le> length X \<and> scale_lines X = Inr 0"
    then show a: "arr ?r = X" using plotWiggles_arr_zero by blast
    {
      assume e: "err ?r = None \<and> length X \<le> 70"
      then have e': "err ?r = None" and N: "2 \<le> length X" "length X \<le> 70" using z by auto
      obtain yl p q where d: "drawn ?r
           = (if length X \<le> 18
              then [SetYLabel yl, SetYTicks interval, SetYTickLabels interval, ShowYTicks]
              else [SetYLabel yl])
             @ concat (map (\<lambda>n. trace_cmds xvals (interval ! n) (arr ?r ! n) p q) [0..<length X])
             @ time_axis xvals title pp"
        using plotWiggles_lines_shape(1) [OF e' N] by blast
      show "stacked_lines xvals interval X (drawn ?r)"
        unfolding d a by (rule stacked_lines_traces) simp
    }
    {
      assume e: "err ?r = None \<and> 70 < length X"
      then obtain yl lo hi cm where d: "drawn ?r
           = [SetYLabel yl, PColorMesh xvals interval X lo hi cm] @ time_axis xvals title pp"
        using plotWiggles_raster_shape [of cmaps ax X xvals interval coordinates title flag pp]
        by blast
      have "PColorMesh xvals interval X lo hi cm \<in> set (drawn ?r)"
        unfolding d by simp
      then show "\<exists>lo hi cm. PColorMesh xvals interval X lo hi cm \<in> set (drawn ?r)"
        by blast
    }
  }
qed

theorem C5_witness:
  "length [[0, 0, 0 :: rat]] = 1
   \<and> err (plotWiggles demo_cmaps [] [[0, 0, 0]] [0, 1, 2] [5] None ''Data'' ''data'' default_params) = None
   \<and> arr (plotWiggles demo_cmaps [] [[0, 0, 0]] [0, 1, 2] [5] None ''Data'' ''data'' default_params)
       = [[0, 0, 0]]
   \<and> Plot [0, 1, 2] [0, 0, 0]
       \<in> set (drawn (plotWiggles demo_cmaps [] [[0, 0, 0]] [0, 1, 2] [5] None ''Data'' ''data''
                       default_params))
   \<and> 2 \<le> length [[0, 0], [0, 0 :: rat]] \<and> scale_lines [[0, 0], [0, 0]] = Inr 0
   \<and> length [[0, 0], [0, 0 :: rat]] \<le> 70
   \<and> err (plotWiggles demo_cmaps [] [[0, 0], [0, 0]] [0, 1] [1, 2] None ''Data'' ''data'' default_params)
       = None
   \<and> arr (plotWiggles demo_cmaps [] [[0, 0], [0, 0]] [0, 1] [1, 2] None ''Data'' ''data'' default_params)
       = [[0, 0], [0, 0]]
   \<and> stacked_lines [0, 1] [1, 2] [[0, 0], [0, 0]]
        (drawn (plotWiggles demo_cmaps [] [[0, 0], [0, 0]] [0, 1] [1, 2] None ''Data'' ''data''
                  default_params))
   \<and> err (plotWiggles demo_cmaps [] (replicate 71 [0, 0]) [0, 1] (demo_numbers 71) None ''Data'' ''data''
             native_params) = None
   \<and> scale_lines (replicate 71 [0, 0]) = Inr 0
   \<and> arr (plotWiggles demo_cmaps [] (replicate 71 [0, 0]) [0, 1] (demo_numbers 71) None ''Data'' ''data''
             native_params) = replicate 71 [0, 0]
   \<and> (\<exists>lo hi cm. PColorMesh [0, 1] (demo_numbers 71) (replicate 71 [0, 0]) lo hi cm
         \<in> set (drawn (plotWiggles demo_cmaps [] (replicate 71 [0, 0]) [0, 1] (demo_numbers 71) None
                         ''Data'' ''data'' native_params)))"
proof -
  have f: "flag_label ''data'' = Some ''Receiver''"
    by (simp add: flag_label_def)
  have c: "get_cmap_colors demo_cmaps (wiggle_colormap default_params) (view_mode default_params) True
             = Inr (Fills ''black'' ''None'')"
    by (simp add: get_cmap_colors_def default_params_def)
  have cn: "get_cmap_colors demo_cmaps (wiggle_colormap native_params) (view_mode native_params)
              True = Inr (Fills ''m'' ''c'')"
    "get_cmap_colors demo_cmaps (wiggle_colormap native_params) (view_mode native_params)
              False = Inr (Colormap Vz_cwm)"
    by (simp_all add: get_cmap_colors_def native_params_def default_params_def)
  have e1: "err (plotWiggles demo_cmaps [] [[0, 0, 0]] [0, 1, 2] [5] None ''Data'' ''data'' default_params)
              = None"
    by (simp add: plotWiggles_def set_ylabel_def flag_label_def default_params_def
          wiggle_single_def get_cmap_colors_def wiggle_finish_def Let_def)
  have s2: "scale_lines [[0, 0], [0, 0]] = Inr 0"
    by (simp add: scale_lines_def ptp_rows_def ptp_def amax_def fl_0)
  have e2: "err (plotWiggles demo_cmaps [] [[0, 0], [0, 0]] [0, 1] [1, 2] None ''Data'' ''data''
                   default_params) = None"
    by (rule plotWiggles_completes [OF f _ _ _ _ c]) simp_all
  have s71: "scale_lines (replicate 71 [0, 0]) = Inr 0"
    by (simp add: scale_lines_def ptp_rows_def ptp_def amax_def fl_0 eval_nat_numeral)
  have e71: "err (plotWiggles demo_cmaps [] (replicate 71 [0, 0]) [0, 1] (demo_numbers 71) None ''Data''
                    ''data'' native_params) = None"
    by (rule plotWiggles_completes [OF f _ _ _ _ cn(1) cn(2)]) (simp_all add: demo_numbers_def)
  show ?thesis
    using C5_no_division_by_zero [of demo_cmaps "[]" "[[0, 0, 0]]" "[0, 1, 2]" "[5]" None
            "''Data''" "''data''" default_params]
      C5_no_division_by_zero [of demo_cmaps "[]" "[[0, 0], [0, 0]]" "[0, 1]" "[1, 2]" None
            "''Data''" "''data''" default_params]
      C5_no_division_by_zero [of demo_cmaps "[]" "replicate 71 [0, 0]" "[0, 1]" "demo_numbers 71"
            None "''Data''" "''data''" native_params]
      e1 s2 e2 s71 e71
    by simp
qed

subsection \<open>Rendering and the caller's arrays\<close>

lemma fl_1: "fl 1 = 1"
  by code_simp

lemma fl_2: "fl 2 = 2"
  by code_simp

lemma scale_lines_02: "scale_lines [[0, 2], [0, 0]] = Inr 2"
  by (simp add: scale_lines_def ptp_rows_def ptp_def amax_def fl_0 fl_2)

lemma completes_default:
  assumes "2 \<le> length X" and "[] \<notin> set X" and "length X \<le> length interval"
    and "xvals \<noteq> []" and "length X \<le> 70"
  shows "err (plotWiggles cmaps ax X xvals interval coordinates title ''data'' default_params) = None"
proof -
  have f: "flag_label ''data'' = Some ''Receiver''"
    by (simp add: flag_label_def)
  have c: "get_cmap_colors cmaps (wiggle_colormap default_params) (view_mode default_params) True
             = Inr (Fills ''black'' ''None'')"
    by (simp add: get_cmap_colors_def default_params_def)
  show ?thesis
    by (rule plotWiggles_completes [OF f assms(1,2,3,4) c]) (use assms(5) in simp)
qed

lemma magma_registered: "image_colormap default_params \<in> set demo_cmaps"
  by (simp add: default_params_def demo_cmaps_def)

text \<open>
  C1 as stated fails: rendering the two traces \<open>(0, 2)\<close> and \<open>(0, 0)\<close> returns and leaves
  \<open>(0, 1)\<close> and \<open>(0, 0)\<close> in the array that was passed in, and rendering the image
  \<open>(0.5, 2), (1, 3)\<close> with the default bounds returns and leaves \<open>(0.5, 0), (1, 0)\<close>.
\<close>

theorem C1_counterexample:
  "err (plotWiggles demo_cmaps [] [[0, 2], [0, 0]] [0, 1] [1, 2] None ''Data'' ''data'' default_params) = None
   \<and> arr (plotWiggles demo_cmaps [] [[0, 2], [0, 0]] [0, 1] [1, 2] None ''Data'' ''data'' default_params)
       = [[0, 1], [0, 0]]
   \<and> arr (plotWiggles demo_cmaps [] [[0, 2], [0, 0]] [0, 1] [1, 2] None ''Data'' ''data'' default_params)
       \<noteq> [[0, 2], [0, 0]]
   \<and> ierr (image_viewer demo_cmaps [] (A2 [[1/2, 2], [1, 3]]) ''svd'' 0 0 0 default_params
           (A2 [[0, 0], [1, 1]]) (A2 [[0, 1], [0, 1]]) None None) = None
   \<and> iarr (image_viewer demo_cmaps [] (A2 [[1/2, 2], [1, 3]]) ''svd'' 0 0 0 default_params
           (A2 [[0, 0], [1, 1]]) (A2 [[0, 1], [0, 1]]) None None)
       = A2 [[1/2, 0], [1, 0]]
   \<and> iarr (image_viewer demo_cmaps [] (A2 [[1/2, 2], [1, 3]]) ''svd'' 0 0 0 default_params
           (A2 [[0, 0], [1, 1]]) (A2 [[0, 1], [0, 1]]) None None)
       \<noteq> A2 [[1/2, 2], [1, 3]]"
proof -
  have e: "err (plotWiggles demo_cmaps [] [[0, 2], [0, 0]] [0, 1] [1, 2] None ''Data'' ''data''
                  default_params) = None"
    by (rule completes_default) simp_all
  have a: "arr (plotWiggles demo_cmaps [] [[0, 2], [0, 0]] [0, 1] [1, 2] None ''Data'' ''data''
                  default_params) = [[0, 1], [0, 0]]"
    using plotWiggles_arr_lines [OF e _ _ scale_lines_02] by (simp add: fl_0 fl_1)
  show ?thesis
    using e a
    by (simp add: image_viewer_2d [OF magma_registered])
       (simp add: default_params_def mask_assign_def)
qed

text \<open>
  C1 (as amended). \<^verbatim>\<open>plotWiggles\<close> leaves the array it was given element for element as
  it was when there is at most one trace, when there are more than 70, and when the
  largest peak-to-peak displacement is zero; for 2 to 70 traces with a largest
  displacement \<open>s \<noteq> 0\<close>, a call that returns has divided every element by \<open>s\<close>, in
  the array it was given. \<^verbatim>\<open>image_viewer\<close> leaves an image unchanged when none of its
  values exceeds \<^verbatim>\<open>vmax\<close>; a call that returns has overwritten, in the array it was given,
  the values above \<^verbatim>\<open>vmax\<close> with \<^verbatim>\<open>vmin\<close> and no others.
\<close>

theorem C1_arrays_after_rendering:
  "(length X \<le> 1 \<or> 70 < length X \<or> scale_lines X = Inr 0 \<longrightarrow>
      arr (plotWiggles cmaps ax X xvals interval coordinates title flag pp) = X)
   \<and> (err (plotWiggles cmaps ax X xvals interval coordinates title flag pp) = None
        \<and> 2 \<le> length X \<and> length X \<le> 70 \<and> scale_lines X = Inr s \<and> s \<noteq> 0 \<longrightarrow>
      arr (plotWiggles cmaps ax X xvals interval coordinates title flag pp)
        = map (map (\<lambda>x. fl (x / s))) X)
   \<and> ((\<forall>row \<in> set img. \<forall>x \<in> set row. x \<le> vmax pp) \<longrightarrow>
      iarr (image_viewer cmaps surface (A2 img) solver alpha atol btol pp GX GY Z tau) = A2 img)
   \<and> (ierr (image_viewer cmaps surface volume solver alpha atol btol pp GX GY Z tau) = None \<longrightarrow>
      iarr (image_viewer cmaps surface volume solver alpha atol btol pp GX GY Z tau)
        = clip_above (vmax pp) (vmin pp) volume)"
proof (intro conjI impI)
  assume "length X \<le> 1 \<or> 70 < length X \<or> scale_lines X = Inr 0"
  then show "arr (plotWiggles cmaps ax X xvals interval coordinates title flag pp) = X"
    using plotWiggles_arr_outside [of X] plotWiggles_arr_zero [of X] by blast
next
  assume "err (plotWiggles cmaps ax X xvals interval coordinates title flag pp) = None
        \<and> 2 \<le> length X \<and> length X \<le> 70 \<and> scale_lines X = Inr s \<and> s \<noteq> 0"
  then show "arr (plotWiggles cmaps ax X xvals interval coordinates title flag pp)
        = map (map (\<lambda>x. fl (x / s))) X"
    using plotWiggles_arr_lines by blast
next
  assume le: "\<forall>row \<in> set img. \<forall>x \<in> set row. x \<le> vmax pp"
  show "iarr (image_viewer cmaps surface (A2 img) solver alpha atol btol pp GX GY Z tau) = A2 img"
  proof (cases Z)
    case None
    show ?thesis
    proof (cases "image_colormap pp \<in> set cmaps")
      case True
      then show ?thesis
        using None by (simp add: image_viewer_2d map_mask_assign_id [OF le])
    next
      case False
      then show ?thesis
        using None by (simp add: image_viewer_unregistered)
    qed
  next
    case (Some z)
    then show ?thesis by (simp add: image_viewer_3d_arr)
  qed
next
  assume "ierr (image_viewer cmaps surface volume solver alpha atol btol pp GX GY Z tau) = None"
  then have "Z = None" and "image_colormap pp \<in> set cmaps"
    by (simp_all add: image_viewer_returns)
  then show "iarr (image_viewer cmaps surface volume solver alpha atol btol pp GX GY Z tau)
        = clip_above (vmax pp) (vmin pp) volume"
    by (simp add: image_viewer_2d)
qed

theorem C1_witness:
  "length [[0, 1, 0 :: rat]] \<le> 1
   \<and> arr (plotWiggles demo_cmaps [] [[0, 1, 0]] [0, 1, 2] [5] None ''Data'' ''data'' default_params)
       = [[0, 1, 0]]
   \<and> err (plotWiggles demo_cmaps [] [[0, 2], [0, 0]] [0, 1] [1, 2] None ''Data'' ''data'' default_params)
       = None
   \<and> 2 \<le> length [[0, 2], [0, 0 :: rat]] \<and> length [[0, 2], [0, 0 :: rat]] \<le> 70
   \<and> scale_lines [[0, 2], [0, 0]] = Inr 2 \<and> (2 :: rat) \<noteq> 0
   \<and> arr (plotWiggles demo_cmaps [] [[0, 2], [0, 0]] [0, 1] [1, 2] None ''Data'' ''data'' default_params)
       = map (map (\<lambda>x. fl (x / 2))) [[0, 2], [0, 0]]
   \<and> iarr (image_viewer demo_cmaps [] (A2 [[1/2, 1]]) ''svd'' 0 0 0 default_params
           (A2 [[0, 0]]) (A2 [[0, 1]]) None None) = A2 [[1/2, 1]]
   \<and> ierr (image_viewer demo_cmaps [] (A2 [[1/2, 2]]) ''svd'' 0 0 0 default_params
           (A2 [[0, 0]]) (A2 [[0, 1]]) None None) = None
   \<and> iarr (image_viewer demo_cmaps [] (A2 [[1/2, 2]]) ''svd'' 0 0 0 default_params
           (A2 [[0, 0]]) (A2 [[0, 1]]) None None)
       = clip_above (vmax default_params) (vmin default_params) (A2 [[1/2, 2]])"
proof -
  have e: "err (plotWiggles demo_cmaps [] [[0, 2], [0, 0]] [0, 1] [1, 2] None ''Data'' ''data''
                  default_params) = None"
    by (rule completes_default) simp_all
  have v: "vmax default_params = 1" by (simp add: default_params_def)
  have i: "ierr (image_viewer demo_cmaps [] (A2 [[1/2, 2]]) ''svd'' 0 0 0 default_params
           (A2 [[0, 0]]) (A2 [[0, 1]]) None None) = None"
    by (simp add: image_viewer_2d [OF magma_registered])
  show ?thesis
    using C1_arrays_after_rendering [where cmaps = demo_cmaps and X = "[[0, 1, 0]]" and ax = "[]"
            and xvals = "[0, 1, 2]"
            and interval = "[5]" and coordinates = None and title = "''Data''"
            and flag = "''data''" and pp = default_params and img = "[[1/2, 1]]"
            and surface = "[]" and solver = "''svd''" and alpha = 0 and atol = 0 and btol = 0
            and GX = "A2 [[0, 0]]" and GY = "A2 [[0, 1]]" and Z = None and tau = None
            and volume = "A2 [[1/2, 2]]"]
      C1_arrays_after_rendering [where cmaps = demo_cmaps and X = "[[0, 2], [0, 0]]" and ax = "[]"
            and xvals = "[0, 1]"
            and interval = "[1, 2]" and coordinates = None and title = "''Data''"
            and flag = "''data''" and pp = default_params and s = 2]
      e scale_lines_02 v i
    by simp
qed

subsection \<open>Drawing twice\<close>

lemma scale_lines_72: "scale_lines [[7, 2], [0, 0]] = Inr 5"
  by (simp add: scale_lines_def ptp_rows_def ptp_def amax_def fl_0 fl_5)

lemma scale_lines_72_rescaled:
  "scale_lines [[fl (7/5), fl (2/5)], [0, 0]] = Inr (1 - 1 / 2 ^ 53)"
  by code_simp

lemma rescaled_again_differs: "fl (fl (7/5) / (1 - 1 / 2 ^ 53)) \<noteq> fl (7/5)"
  by code_simp

lemma offset_again_differs:
  "fl (1 + fl (fl (7/5) / (1 - 1 / 2 ^ 53))) \<noteq> fl (1 + fl (7/5))"
  by code_simp

lemma first_trace_drawn:
  assumes "err (plotWiggles cmaps ax X xvals interval coordinates title flag pp) = None"
    and "2 \<le> length X" and "length X \<le> 18"
  shows "drawn (plotWiggles cmaps ax X xvals interval coordinates title flag pp) ! 4
           = Plot xvals (offset (interval ! 0)
               (arr (plotWiggles cmaps ax X xvals interval coordinates title flag pp) ! 0))"
proof -
  let ?r = "plotWiggles cmaps ax X xvals interval coordinates title flag pp"
  have N: "length X \<le> 70" using assms(3) by simp
  obtain yl p q where d: "drawn ?r
           = [SetYLabel yl, SetYTicks interval, SetYTickLabels interval, ShowYTicks]
             @ concat (map (\<lambda>n. trace_cmds xvals (interval ! n) (arr ?r ! n) p q) [0..<length X])
             @ time_axis xvals title pp"
    using plotWiggles_lines_shape(1) [OF assms(1,2) N] assms(3) by auto
  have u: "[0..<length X] = 0 # [Suc 0..<length X]"
    by (rule upt_conv_Cons) (use assms(2) in auto)
  show ?thesis
    unfolding d u by (simp add: trace_cmds_def Let_def)
qed

text \<open>
  C9 as stated fails in double precision. The two traces \<open>(7, 2)\<close> and \<open>(0, 0)\<close> are
  rescaled by 5 to \<open>(1.4, 0.4)\<close> and \<open>(0, 0)\<close>; the second call finds the largest
  displacement \<open>1.4 - 0.4 = 1 - 2^-53\<close>, divides again, and leaves and draws
  \<open>1.4000000000000001\<close> where the first call left and drew \<open>1.4\<close>.
\<close>

theorem C9_counterexample:
  "err (plotWiggles demo_cmaps [] [[7, 2], [0, 0]] [0, 1] [1, 2] None ''Data'' ''data'' default_params)
     = None
   \<and> err (redraw demo_cmaps [0, 1] [1, 2] None ''Data'' ''data'' default_params
            (plotWiggles demo_cmaps [] [[7, 2], [0, 0]] [0, 1] [1, 2] None ''Data'' ''data''
               default_params)) = None
   \<and> arr (plotWiggles demo_cmaps [] [[7, 2], [0, 0]] [0, 1] [1, 2] None ''Data'' ''data'' default_params)
       = [[fl (7/5), fl (2/5)], [0, 0]]
   \<and> arr (redraw demo_cmaps [0, 1] [1, 2] None ''Data'' ''data'' default_params
            (plotWiggles demo_cmaps [] [[7, 2], [0, 0]] [0, 1] [1, 2] None ''Data'' ''data''
               default_params))
       \<noteq> arr (plotWiggles demo_cmaps [] [[7, 2], [0, 0]] [0, 1] [1, 2] None ''Data'' ''data''
                 default_params)
   \<and> drawn (redraw demo_cmaps [0, 1] [1, 2] None ''Data'' ''data'' default_params
              (plotWiggles demo_cmaps [] [[7, 2], [0, 0]] [0, 1] [1, 2] None ''Data'' ''data''
                 default_params))
       \<noteq> drawn (plotWiggles demo_cmaps [] [[7, 2], [0, 0]] [0, 1] [1, 2] None ''Data'' ''data''
                   default_params)"
proof -
  let ?r1 = "plotWiggles demo_cmaps [] [[7, 2], [0, 0]] [0, 1] [1, 2] None ''Data'' ''data'' default_params"
  let ?r2 = "redraw demo_cmaps [0, 1] [1, 2] None ''Data'' ''data'' default_params ?r1"
  have e1: "err ?r1 = None"
    by (rule completes_default) simp_all
  have a1: "arr ?r1 = [[fl (7/5), fl (2/5)], [0, 0]]"
    using plotWiggles_arr_lines [OF e1 _ _ scale_lines_72] by (simp add: fl_0)
  have r2: "?r2 = plotWiggles demo_cmaps (drawn ?r1) [[fl (7/5), fl (2/5)], [0, 0]] [0, 1] [1, 2] None
                    ''Data'' ''data'' default_params"
    by (simp add: redraw_def a1)
  have e2: "err ?r2 = None"
    unfolding r2 by (rule completes_default) simp_all
  have a2: "arr ?r2 = [[fl (fl (7/5) / (1 - 1 / 2 ^ 53)), fl (fl (2/5) / (1 - 1 / 2 ^ 53))],
                       [0, 0]]"
    using plotWiggles_arr_lines [OF e2 [unfolded r2] _ _ scale_lines_72_rescaled]
    unfolding r2 by (simp add: fl_0)
  have na: "arr ?r2 \<noteq> arr ?r1"
    unfolding a1 a2 using rescaled_again_differs by simp
  have d1: "drawn ?r1 ! 4 = Plot [0, 1] (offset 1 (arr ?r1 ! 0))"
    using first_trace_drawn [OF e1] by simp
  have d2: "drawn ?r2 ! 4 = Plot [0, 1] (offset 1 (arr ?r2 ! 0))"
    using first_trace_drawn [OF e2 [unfolded r2]] unfolding r2 [symmetric] by simp
  have "drawn ?r2 ! 4 \<noteq> drawn ?r1 ! 4"
    unfolding d1 d2 a1 a2 using offset_again_differs by (simp add: offset_def)
  then have nd: "drawn ?r2 \<noteq> drawn ?r1" by auto
  show ?thesis using e1 e2 a1 na nd by blast
qed

text \<open>
  A second call is given the array as the first call left it. It has the same number of
  rows, so it takes the same branch, and its rows are not empty, so its scale factor
  exists.
\<close>

lemma rescale_shape:
  assumes "rescale X = Inr X'"
  shows "length X' = length X" and "X \<noteq> []" and "[] \<notin> set X" and "[] \<notin> set X'"
  using assms
  by (auto simp: rescale_def idiv_def scale_lines_def ptp_rows_def amax_def
           split: sum.splits if_splits list.splits)

lemma wiggle_lines_length:
  "length (arr (wiggle_lines cmaps d X xvals interval pp)) = length X"
  by (auto simp: wiggle_lines_def rescale_shape(1)
           split: sum.splits cmap_colors.splits prod.splits)

lemma wiggle_lines_again:
  assumes "rescale X = Inr X'" and "rescale X' = Inr X'"
    and "get_cmap_colors cmaps (wiggle_colormap pp) (view_mode pp) True = Inr (Fills p q)"
  shows "wiggle_lines cmaps d X' xvals interval pp = wiggle_lines cmaps d X xvals interval pp"
  using assms rescale_shape(1) [OF assms(1)]
  by (simp add: wiggle_lines_def)

lemma wiggle_lines_arr_cases:
  "arr (wiggle_lines cmaps d X xvals interval pp) = X
   \<or> (rescale X = Inr (arr (wiggle_lines cmaps d X xvals interval pp))
      \<and> (\<exists>p q. get_cmap_colors cmaps (wiggle_colormap pp) (view_mode pp) True
                 = Inr (Fills p q)))"
  by (auto simp: wiggle_lines_def split: sum.splits cmap_colors.splits prod.splits)

lemma wiggle_lines_redraw:
  assumes "\<forall>X'. rescale X = Inr X' \<longrightarrow> rescale X' = Inr X'"
  shows "wiggle_lines cmaps d (arr (wiggle_lines cmaps d X xvals interval pp)) xvals interval pp
           = wiggle_lines cmaps d X xvals interval pp"
  using wiggle_lines_arr_cases [of cmaps d X xvals interval pp] assms
  by (auto intro: wiggle_lines_again)

lemma wiggle_lines_redraw_arr:
  assumes "arr (wiggle_lines cmaps d (arr (wiggle_lines cmaps d X xvals interval pp)) xvals
                  interval pp)
             = arr (wiggle_lines cmaps d X xvals interval pp)"
  shows "wiggle_lines cmaps d (arr (wiggle_lines cmaps d X xvals interval pp)) xvals interval pp
           = wiggle_lines cmaps d X xvals interval pp"
proof -
  let ?A = "arr (wiggle_lines cmaps d X xvals interval pp)"
  consider "?A = X"
    | p q where "rescale X = Inr ?A"
        and "get_cmap_colors cmaps (wiggle_colormap pp) (view_mode pp) True = Inr (Fills p q)"
    using wiggle_lines_arr_cases [of cmaps d X xvals interval pp] by blast
  then show ?thesis
  proof cases
    case 1
    then show ?thesis by simp
  next
    case 2
    have "?A \<noteq> []" using rescale_shape(1,2) [OF 2(1)] by auto
    then obtain B where B: "rescale ?A = Inr B"
      using rescale_defined [of ?A] rescale_shape(4) [OF 2(1)] by blast
    have "arr (wiggle_lines cmaps d ?A xvals interval pp) = B"
      by (simp add: wiggle_lines_def [of cmaps d ?A] 2(2) B split: prod.splits)
    then have "rescale ?A = Inr ?A" using assms B by simp
    then show ?thesis using wiggle_lines_again [OF 2(1) _ 2(2)] by simp
  qed
qed

lemma plotWiggles_lines_unfold:
  assumes "2 \<le> length X" and "length X \<le> 70" and "interval = i # iv"
    and "set_ylabel (length X) coordinates i flag pp = Inr yl"
  shows "plotWiggles cmaps ax X xvals interval coordinates title flag pp
           = wiggle_finish
               (wiggle_lines cmaps
                  (if length X \<le> 18
                   then [SetYLabel yl, SetYTicks interval, SetYTickLabels interval, ShowYTicks]
                   else [SetYLabel yl]) X xvals interval pp) xvals title pp"
  using assms by (simp add: plotWiggles_def Let_def)

lemma plotWiggles_redraw_lines:
  assumes "2 \<le> length X" and "length X \<le> 70"
    and "\<And>d. wiggle_lines cmaps d (arr (wiggle_lines cmaps d X xvals interval pp)) xvals
                 interval pp
               = wiggle_lines cmaps d X xvals interval pp"
  shows "redraw cmaps xvals interval coordinates title flag pp
           (plotWiggles cmaps ax X xvals interval coordinates title flag pp)
         = plotWiggles cmaps ax X xvals interval coordinates title flag pp"
proof (cases interval)
  case Nil
  then show ?thesis by (simp add: redraw_def plotWiggles_def)
next
  case (Cons i iv)
  show ?thesis
  proof (cases "set_ylabel (length X) coordinates i flag pp")
    case (Inl e)
    then show ?thesis using Cons by (simp add: redraw_def plotWiggles_def)
  next
    case (Inr yl)
    let ?d = "if length X \<le> 18
              then [SetYLabel yl, SetYTicks interval, SetYTickLabels interval, ShowYTicks]
              else [SetYLabel yl]"
    let ?w = "wiggle_lines cmaps ?d X xvals interval pp"
    have r: "\<And>surface. plotWiggles cmaps surface X xvals interval coordinates title flag pp
               = wiggle_finish ?w xvals title pp"
      by (rule plotWiggles_lines_unfold [OF assms(1,2) Cons Inr])
    have a: "arr (wiggle_finish ?w xvals title pp) = arr ?w"
      by (rule arr_wiggle_finish)
    have l: "length (arr ?w) = length X"
      by (rule wiggle_lines_length)
    have "plotWiggles cmaps (drawn (wiggle_finish ?w xvals title pp)) (arr ?w) xvals interval
            coordinates title flag pp
          = wiggle_finish (wiggle_lines cmaps ?d (arr ?w) xvals interval pp) xvals title pp"
      using plotWiggles_lines_unfold [of "arr ?w" interval i iv coordinates flag pp yl cmaps
              "drawn (wiggle_finish ?w xvals title pp)" xvals title]
        assms(1,2) Cons Inr l
      by simp
    then show ?thesis
      unfolding redraw_def r a using assms(3) [of ?d] by simp
  qed
qed

text \<open>
  C9 (as amended). Redrawing is idempotent whenever the array that the first call leaves
  is a fixed point of the rescaling: a second call of \<^verbatim>\<open>plotWiggles\<close> with the same
  arguments gives the same drawn frame, the same array and the same exception, if any,
  as the first call, whatever the frame stack and the style configuration, for at most
  one trace, for more than 70 traces, and for 2 to 70 traces such that, if lines 507-510
  rescale \<open>X\<close> to \<open>X'\<close>, they rescale \<open>X'\<close> to \<open>X'\<close> (so also when the largest peak-to-peak
  displacement is zero, and when the rescaling raises). In every case the second call
  gives the same result as the first exactly when it leaves the array as the first call
  left it.
\<close>

theorem C9_redraw_idempotent:
  "(length X \<le> 1 \<or> 70 < length X \<or> (\<forall>X'. rescale X = Inr X' \<longrightarrow> rescale X' = Inr X') \<longrightarrow>
      redraw cmaps xvals interval coordinates title flag pp
        (plotWiggles cmaps ax X xvals interval coordinates title flag pp)
      = plotWiggles cmaps ax X xvals interval coordinates title flag pp)
   \<and> ((redraw cmaps xvals interval coordinates title flag pp
         (plotWiggles cmaps ax X xvals interval coordinates title flag pp)
       = plotWiggles cmaps ax X xvals interval coordinates title flag pp)
      \<longleftrightarrow> (arr (redraw cmaps xvals interval coordinates title flag pp
                  (plotWiggles cmaps ax X xvals interval coordinates title flag pp))
           = arr (plotWiggles cmaps ax X xvals interval coordinates title flag pp)))"
proof -
  let ?r = "plotWiggles cmaps ax X xvals interval coordinates title flag pp"
  let ?r2 = "redraw cmaps xvals interval coordinates title flag pp ?r"
  have same: "arr ?r = X \<Longrightarrow> ?r2 = ?r"
    unfolding redraw_def
    using plotWiggles_ax [of cmaps "drawn ?r" X xvals interval coordinates title flag pp ax]
    by simp
  have outside: "length X \<le> 1 \<or> 70 < length X \<Longrightarrow> ?r2 = ?r"
    using same plotWiggles_arr_outside [of X] by blast
  have fixed: "\<forall>X'. rescale X = Inr X' \<longrightarrow> rescale X' = Inr X' \<Longrightarrow> ?r2 = ?r"
  proof (cases "length X \<le> 1 \<or> 70 < length X")
    case True
    then show ?thesis by (rule outside)
  next
    case False
    assume fp: "\<forall>X'. rescale X = Inr X' \<longrightarrow> rescale X' = Inr X'"
    from False have N: "2 \<le> length X" "length X \<le> 70" by auto
    show ?thesis
      by (rule plotWiggles_redraw_lines [OF N]) (rule wiggle_lines_redraw [OF fp])
  qed
  have conv: "arr ?r2 = arr ?r \<Longrightarrow> ?r2 = ?r"
  proof (cases "length X \<le> 1 \<or> 70 < length X")
    case True
    then show ?thesis by (rule outside)
  next
    case False
    assume eq: "arr ?r2 = arr ?r"
    from False have N: "2 \<le> length X" "length X \<le> 70" by auto
    show ?thesis
    proof (cases interval)
      case Nil
      then show ?thesis by (simp add: redraw_def plotWiggles_def)
    next
      case (Cons i iv)
      show ?thesis
      proof (cases "set_ylabel (length X) coordinates i flag pp")
        case (Inl e)
        then show ?thesis using Cons by (simp add: redraw_def plotWiggles_def)
      next
        case (Inr yl)
        let ?d = "if length X \<le> 18
                  then [SetYLabel yl, SetYTicks interval, SetYTickLabels interval, ShowYTicks]
                  else [SetYLabel yl]"
        let ?w = "wiggle_lines cmaps ?d X xvals interval pp"
        have r: "\<And>surface. plotWiggles cmaps surface X xvals interval coordinates title flag pp
                   = wiggle_finish ?w xvals title pp"
          by (rule plotWiggles_lines_unfold [OF N Cons Inr])
        have l: "length (arr ?w) = length X"
          by (rule wiggle_lines_length)
        have r2: "?r2 = wiggle_finish (wiggle_lines cmaps ?d (arr ?w) xvals interval pp)
                          xvals title pp"
          unfolding redraw_def r arr_wiggle_finish
          using plotWiggles_lines_unfold [of "arr ?w" interval i iv coordinates flag pp yl cmaps
                  "drawn (wiggle_finish ?w xvals title pp)" xvals title]
            N Cons Inr l
          by simp
        have a2: "arr ?r2 = arr (wiggle_lines cmaps ?d (arr ?w) xvals interval pp)"
          using arg_cong [OF r2, of arr] by (simp only: arr_wiggle_finish)
        have a1: "arr ?r = arr ?w"
          using arg_cong [OF r [of ax], of arr] by (simp only: arr_wiggle_finish)
        have "arr (wiggle_lines cmaps ?d (arr ?w) xvals interval pp) = arr ?w"
          using eq a1 a2 by simp
        then have "wiggle_lines cmaps ?d (arr ?w) xvals interval pp = ?w"
          by (rule wiggle_lines_redraw_arr)
        then have "?r2 = wiggle_finish ?w xvals title pp"
          by (simp only: r2)
        also have "\<dots> = ?r"
          by (rule r [symmetric])
        finally show ?thesis .
      qed
    qed
  qed
  show ?thesis
    using outside fixed conv by auto
qed

lemma rescale_02: "rescale [[0, 2], [0, 0]] = Inr [[0, 1], [0, 0]]"
  by (simp add: rescale_def scale_lines_02 idiv_def fl_0 fl_1)

lemma rescale_01: "rescale [[0, 1], [0, 0]] = Inr [[0, 1], [0, 0]]"
  by (simp add: rescale_def scale_lines_def ptp_rows_def ptp_def amax_def idiv_def fl_0 fl_1)

theorem C9_witness:
  "rescale [[0, 2], [0, 0]] = Inr [[0, 1], [0, 0]]
   \<and> rescale [[0, 1], [0, 0]] = Inr [[0, 1], [0, 0]]
   \<and> err (plotWiggles demo_cmaps [] [[0, 2], [0, 0]] [0, 1] [1, 2] None ''Data'' ''data''
           default_params) = None
   \<and> arr (plotWiggles demo_cmaps [] [[0, 2], [0, 0]] [0, 1] [1, 2] None ''Data'' ''data''
           default_params) = [[0, 1], [0, 0]]
   \<and> redraw demo_cmaps [0, 1] [1, 2] None ''Data'' ''data'' default_params
        (plotWiggles demo_cmaps [] [[0, 2], [0, 0]] [0, 1] [1, 2] None ''Data'' ''data''
           default_params)
      = plotWiggles demo_cmaps [] [[0, 2], [0, 0]] [0, 1] [1, 2] None ''Data'' ''data''
          default_params
   \<and> arr (redraw demo_cmaps [0, 1] [1, 2] None ''Data'' ''data'' default_params
        (plotWiggles demo_cmaps [] [[0, 2], [0, 0]] [0, 1] [1, 2] None ''Data'' ''data''
           default_params)) = [[0, 1], [0, 0]]
   \<and> rescale [[0, 0], [0, 0]] = Inr [[0, 0], [0, 0]]
   \<and> redraw demo_cmaps [0, 1] [1, 2] None ''Data'' ''data'' default_params
        (plotWiggles demo_cmaps [] [[0, 0], [0, 0]] [0, 1] [1, 2] None ''Data'' ''data'' default_params)
      = plotWiggles demo_cmaps [] [[0, 0], [0, 0]] [0, 1] [1, 2] None ''Data'' ''data'' default_params
   \<and> length [[0, 1, 0 :: rat]] \<le> 1
   \<and> redraw demo_cmaps [0, 1, 2] [5] None ''Data'' ''data'' default_params
        (plotWiggles demo_cmaps [] [[0, 1, 0]] [0, 1, 2] [5] None ''Data'' ''data'' default_params)
      = plotWiggles demo_cmaps [] [[0, 1, 0]] [0, 1, 2] [5] None ''Data'' ''data'' default_params"
proof -
  have z: "rescale [[0, 0], [0, 0]] = Inr [[0, 0], [0, 0]]"
    by (simp add: rescale_def scale_lines_def ptp_rows_def ptp_def amax_def fl_0)
  have e: "err (plotWiggles demo_cmaps [] [[0, 2], [0, 0]] [0, 1] [1, 2] None ''Data'' ''data''
                  default_params) = None"
    by (rule completes_default) simp_all
  have a: "arr (plotWiggles demo_cmaps [] [[0, 2], [0, 0]] [0, 1] [1, 2] None ''Data'' ''data''
                  default_params) = [[0, 1], [0, 0]]"
    using plotWiggles_arr_lines [OF e _ _ scale_lines_02] by (simp add: fl_0 fl_1)
  have h2: "\<forall>X'. rescale [[0, 2], [0, 0]] = Inr X' \<longrightarrow> rescale X' = Inr X'"
    by (simp add: rescale_02 rescale_01)
  have h0: "\<forall>X'. rescale [[0, 0], [0, 0]] = Inr X' \<longrightarrow> rescale X' = Inr X'"
    by (simp add: z)
  show ?thesis
    using C9_redraw_idempotent [where cmaps = demo_cmaps and X = "[[0, 2], [0, 0]]"
            and xvals = "[0, 1]" and interval = "[1, 2]" and coordinates = None
            and title = "''Data''" and flag = "''data''" and pp = default_params and ax = "[]"]
      C9_redraw_idempotent [where cmaps = demo_cmaps and X = "[[0, 0], [0, 0]]"
            and xvals = "[0, 1]" and interval = "[1, 2]" and coordinates = None
            and title = "''Data''" and flag = "''data''" and pp = default_params and ax = "[]"]
      C9_redraw_idempotent [where cmaps = demo_cmaps and X = "[[0, 1, 0]]"
            and xvals = "[0, 1, 2]" and interval = "[5]" and coordinates = None
            and title = "''Data''" and flag = "''data''" and pp = default_params and ax = "[]"]
      rescale_02 rescale_01 z e a h2 h0
    by simp
qed

section \<open>Unit suffixes in captions\<close>

lemma with_row_value: "point_row P i k = Inr r \<Longrightarrow> with_row P i k f = Inr (f r)"
  by (simp add: with_row_def)

lemma set_ylabel_2d:
  assumes "flag_label flag = Some lbl" and "shape1 c = 2" and "point_row c 0 2 = Inr r"
    and "(xu pp = '''' \<and> yu pp = '''') \<or> (xu pp \<noteq> '''' \<and> yu pp \<noteq> '''')"
  shows "set_ylabel 1 (Some c) i flag pp
           = Inr (spec_ylabel (au pp) lbl i (spec_coords2 r (xu pp) (yu pp)))"
  using assms(4)
  by (auto simp: set_ylabel_def assms(1,2) with_row_value [OF assms(3)]
                 spec_ylabel_def spec_coords2_def unit_suffix_def)

lemma set_ylabel_3d:
  assumes "flag_label flag = Some lbl" and "shape1 c = 3" and "point_row c 0 3 = Inr r"
    and "(xu pp = '''' \<and> yu pp = '''' \<and> zu pp = '''')
         \<or> (xu pp \<noteq> '''' \<and> yu pp \<noteq> '''' \<and> zu pp \<noteq> '''')"
  shows "set_ylabel 1 (Some c) i flag pp
           = Inr (spec_ylabel (au pp) lbl i (spec_coords3 r (xu pp) (yu pp) (zu pp)))"
  using assms(4)
  by (auto simp: set_ylabel_def assms(1,2) with_row_value [OF assms(3)]
                 spec_ylabel_def spec_coords3_def unit_suffix_def)

lemma wave_title_data_2d:
  assumes "shape1 sp = 2" and "py_index sns k = Inr sn" and "point_row sp k 2 = Inr r"
  shows "wave_title k sns (Some sp) ''data'' pp
           = Inr (spec_data_title (data_title pp) sn
                   (if xu pp \<noteq> '''' \<and> yu pp \<noteq> '''' then spec_coords2 r (xu pp) (yu pp)
                    else spec_coords2 r '''' ''''))"
  by (simp add: wave_title_def assms(1,2) with_row_value [OF assms(3)]
        spec_data_title_def spec_coords2_def unit_suffix_def)

lemma wave_title_data_3d:
  assumes "shape1 sp = 3" and "py_index sns k = Inr sn" and "point_row sp k 3 = Inr r"
  shows "wave_title k sns (Some sp) ''data'' pp
           = Inr (spec_data_title (data_title pp) sn
                   (if xu pp \<noteq> '''' \<and> yu pp \<noteq> '''' \<and> zu pp \<noteq> ''''
                    then spec_coords3 r (xu pp) (yu pp) (zu pp)
                    else spec_coords3 r '''' '''' ''''))"
  by (simp add: wave_title_def assms(1,2) with_row_value [OF assms(3)]
        spec_data_title_def spec_coords3_def unit_suffix_def)

lemma wave_title_impulse_2d:
  assumes "flag \<noteq> ''data''" and "shape1 sp = 2" and "point_row sp k 2 = Inr r"
    and "(xu pp = '''' \<and> yu pp = '''') \<or> (xu pp \<noteq> '''' \<and> yu pp \<noteq> '''')"
  shows "wave_title k sns (Some sp) flag pp
           = Inr (spec_impulse_title (impulse_title pp) (spec_coords2 r (xu pp) (yu pp)))"
  using assms(4)
  by (auto simp: wave_title_def assms(1,2) with_row_value [OF assms(3)]
                 spec_impulse_title_def spec_coords2_def unit_suffix_def)

lemma wave_title_impulse_3d:
  assumes "flag \<noteq> ''data''" and "shape1 sp = 3" and "point_row sp k 3 = Inr r"
    and "(xu pp = '''' \<and> yu pp = '''' \<and> zu pp = '''')
         \<or> (xu pp \<noteq> '''' \<and> yu pp \<noteq> '''' \<and> zu pp \<noteq> '''')"
  shows "wave_title k sns (Some sp) flag pp
           = Inr (spec_impulse_title (impulse_title pp)
                   (spec_coords3 r (xu pp) (yu pp) (zu pp)))"
  using assms(4)
  by (auto simp: wave_title_def assms(1,2) with_row_value [OF assms(3)]
                 spec_impulse_title_def spec_coords3_def unit_suffix_def)
lemma fmt_02f_small:
  "fmt_02f 0 = ''0.00''" "fmt_02f 1 = ''1.00''" "fmt_02f 2 = ''2.00''"
  by code_simp+

text \<open>
  C7 as stated fails. With \<open>xu = m\<close> and an empty \<open>yu\<close>, \<^verbatim>\<open>set_ylabel\<close> returns the bare
  word \<open>Receiver\<close>, without number and coordinates, where one suffix per non-empty unit
  would give \<open>Amplitude [Receiver 3 @ (1.23 m, 4.56)]\<close>; and \<^verbatim>\<open>wave_title\<close> puts no unit after
  the first coordinate although \<open>xu\<close> is not empty.
\<close>

theorem C7_counterexample:
  "set_ylabel 1 (Some \<lparr>shape1 = 2, rows = [[fl (123/100), fl (456/100)]]\<rparr>) 3 ''data''
     (default_params\<lparr>xu := ''m''\<rparr>) = Inr ''Receiver''
   \<and> spec_ylabel '''' ''Receiver'' 3 (spec_coords2 [fl (123/100), fl (456/100)] ''m'' '''')
       = ''Amplitude [Receiver 3 @ (1.23 m, 4.56)]''
   \<and> wave_title 2 [1, 2, 3] (Some demo_points) ''data'' (default_params\<lparr>xu := ''m''\<rparr>)
       = Inr ''Data [Source 3 @ (2.00, 1.00)]''"
  by (simp add: set_ylabel_def flag_label_def default_params_def wave_title_def with_row_def
        point_row_def py_index_def py_pos_def demo_points_def spec_ylabel_def spec_coords2_def
        unit_suffix_def fmt_02f_123 fmt_02f_456 fmt_02f_small str_int_3)

text \<open>
  C7 (as amended). The unit suffixes of the coordinates go together. For a single trace
  with coordinates, \<^verbatim>\<open>set_ylabel\<close> gives the caption with the entity name, its number and
  the coordinates when the coordinate unit strings (\<open>xu\<close>, \<open>yu\<close>, and \<open>zu\<close> in three
  dimensions) are all non-empty, each coordinate then followed by its unit, or all
  empty, none then followed by a unit; the amplitude unit \<open>au\<close> is shown exactly when it
  is not empty, whatever the others are. For a data plot with source coordinates,
  \<^verbatim>\<open>wave_title\<close> gives the caption with every coordinate followed by its unit when all
  coordinate unit strings are non-empty, and with no unit at all otherwise.
\<close>

theorem C7_unit_suffixes:
  "(flag_label flag = Some lbl \<and> shape1 c = 2 \<and> point_row c 0 2 = Inr r
      \<and> ((xu pp = '''' \<and> yu pp = '''') \<or> (xu pp \<noteq> '''' \<and> yu pp \<noteq> '''')) \<longrightarrow>
    set_ylabel 1 (Some c) i flag pp
      = Inr (spec_ylabel (au pp) lbl i (spec_coords2 r (xu pp) (yu pp))))
   \<and> (flag_label flag = Some lbl \<and> shape1 cz = 3 \<and> point_row cz 0 3 = Inr rz
      \<and> ((xu pp = '''' \<and> yu pp = '''' \<and> zu pp = '''')
          \<or> (xu pp \<noteq> '''' \<and> yu pp \<noteq> '''' \<and> zu pp \<noteq> '''')) \<longrightarrow>
    set_ylabel 1 (Some cz) i flag pp
      = Inr (spec_ylabel (au pp) lbl i (spec_coords3 rz (xu pp) (yu pp) (zu pp))))
   \<and> (shape1 sp = 2 \<and> py_index sns k = Inr sn \<and> point_row sp k 2 = Inr q \<longrightarrow>
    wave_title k sns (Some sp) ''data'' pp
      = Inr (spec_data_title (data_title pp) sn
              (if xu pp \<noteq> '''' \<and> yu pp \<noteq> '''' then spec_coords2 q (xu pp) (yu pp)
               else spec_coords2 q '''' '''')))
   \<and> (shape1 spz = 3 \<and> py_index sns k = Inr sn \<and> point_row spz k 3 = Inr qz \<longrightarrow>
    wave_title k sns (Some spz) ''data'' pp
      = Inr (spec_data_title (data_title pp) sn
              (if xu pp \<noteq> '''' \<and> yu pp \<noteq> '''' \<and> zu pp \<noteq> ''''
               then spec_coords3 qz (xu pp) (yu pp) (zu pp)
               else spec_coords3 qz '''' '''' '''')))"
  using set_ylabel_2d [of flag lbl c r pp i] set_ylabel_3d [of flag lbl cz rz pp i]
    wave_title_data_2d [of sp sns k sn q pp] wave_title_data_3d [of spz sns k sn qz pp]
  by blast

theorem C7_witness:
  "set_ylabel 1 (Some \<lparr>shape1 = 2, rows = [[fl (123/100), fl (456/100)]]\<rparr>) 3 ''data''
     (default_params\<lparr>xu := ''m'', yu := ''m'', au := ''Pa''\<rparr>)
     = Inr ''Amplitude (Pa) [Receiver 3 @ (1.23 m, 4.56 m)]''
   \<and> set_ylabel 1 (Some \<lparr>shape1 = 3, rows = [[fl (123/100), fl (456/100), 0]]\<rparr>) 3 ''data''
       default_params
     = Inr ''Amplitude [Receiver 3 @ (1.23, 4.56, 0.00)]''
   \<and> wave_title 2 [1, 2, 3] (Some demo_points) ''data''
       (default_params\<lparr>xu := ''m'', yu := ''m'', au := ''Pa''\<rparr>)
     = Inr ''Data [Source 3 @ (2.00 m, 1.00 m)]''
   \<and> wave_title 2 [1, 2, 3] (Some \<lparr>shape1 = 3, rows = [[0, 0, 0], [0, 0, 0], [0, 1, 2]]\<rparr>)
       ''data'' default_params
     = Inr ''Data [Source 3 @ (0.00, 1.00, 2.00)]''"
  using C7_unit_suffixes [where flag = "''data''" and lbl = "''Receiver''"
          and c = "\<lparr>shape1 = 2, rows = [[fl (123/100), fl (456/100)]]\<rparr>"
          and r = "[fl (123/100), fl (456/100)]"
          and pp = "default_params\<lparr>xu := ''m'', yu := ''m'', au := ''Pa''\<rparr>" and i = 3
          and sp = demo_points and sns = "[1, 2, 3]" and k = 2 and sn = 3 and q = "[2, 1]"]
    C7_unit_suffixes [where flag = "''data''" and lbl = "''Receiver''"
          and pp = default_params and i = 3
          and cz = "\<lparr>shape1 = 3, rows = [[fl (123/100), fl (456/100), 0]]\<rparr>"
          and rz = "[fl (123/100), fl (456/100), 0]"
          and sns = "[1, 2, 3]" and k = 2 and sn = 3
          and spz = "\<lparr>shape1 = 3, rows = [[0, 0, 0], [0, 0, 0], [0, 1, 2]]\<rparr>"
          and qz = "[0, 1, 2]"]
  by (simp add: flag_label_def default_params_def point_row_def py_index_def py_pos_def
        demo_points_def spec_ylabel_def spec_coords2_def spec_coords3_def spec_data_title_def
        unit_suffix_def fmt_02f_123 fmt_02f_456 fmt_02f_small str_int_3)

section \<open>Properties of the dataset switch\<close>

lemma one_datasetE:
  assumes "one_dataset v"
  obtains ex where "experiments v = [Some ex, None]"
  using assms unfolding one_dataset_def
  by (auto split: list.splits option.splits)

lemma two_datasetsE:
  assumes "two_datasets v"
  obtains ex ex2 where "experiments v = [Some ex, Some ex2]"
  using assms unfolding two_datasets_def
  by (auto split: list.splits option.splits)

lemma switch_one:
  assumes "experiments v = [Some ex, None]" and "index v = 0"
    and "render_wave cmaps (fig_ax v) ex pp = (e, a', ex')"
  shows "switch_experiments cmaps key v pp
           = (e, v\<lparr>experiments := [Some ex', None], fig_ax := a'\<rparr>)"
proof -
  have v0: "v\<lparr>index := 0\<rparr> = v" using assms(2) by simp
  show ?thesis
    using assms by (simp add: switch_experiments_def py_index_def py_pos_def Let_def v0)
qed

lemma switch_two_0:
  assumes "experiments v = [Some ex, Some ex2]" and "index v = 0"
    and "render_wave cmaps (fig_ax v) ex2 pp = (e, a', ex')"
  shows "switch_experiments cmaps ''r'' v pp
           = (e, v\<lparr>index := 1, experiments := [Some ex, Some ex'], fig_ax := a'\<rparr>)"
  using assms by (simp add: switch_experiments_def py_index_def py_pos_def Let_def)

lemma switch_two_1:
  assumes "experiments v = [Some ex, Some ex2]" and "index v = 1"
    and "render_wave cmaps (fig_ax v) ex pp = (e, a', ex')"
  shows "switch_experiments cmaps ''r'' v pp
           = (e, v\<lparr>index := 0, experiments := [Some ex', Some ex2], fig_ax := a'\<rparr>)"
  using assms by (simp add: switch_experiments_def py_index_def py_pos_def Let_def)

lemma press_one:
  assumes "one_dataset v" and "index v = 0"
  shows "one_dataset (press cmaps key pp v) \<and> index (press cmaps key pp v) = 0"
proof -
  obtain ex where ex: "experiments v = [Some ex, None]"
    using assms(1) by (rule one_datasetE)
  obtain e a' ex' where r: "render_wave cmaps (fig_ax v) ex pp = (e, a', ex')"
    by (cases "render_wave cmaps (fig_ax v) ex pp") auto
  show ?thesis
    using switch_one [OF ex assms(2) r, of key] assms(2)
    by (simp add: press_def one_dataset_def)
qed

lemma press_two:
  assumes "two_datasets v" and "index v = 0 \<or> index v = 1"
  shows "two_datasets (press cmaps ''r'' pp v) \<and> index (press cmaps ''r'' pp v) = 1 - index v"
proof -
  obtain ex ex2 where ex: "experiments v = [Some ex, Some ex2]"
    using assms(1) by (rule two_datasetsE)
  from assms(2) show ?thesis
  proof
    assume i: "index v = 0"
    obtain e a' ex' where r: "render_wave cmaps (fig_ax v) ex2 pp = (e, a', ex')"
      by (cases "render_wave cmaps (fig_ax v) ex2 pp") auto
    show ?thesis
      using switch_two_0 [OF ex i r] i by (simp add: press_def two_datasets_def)
  next
    assume i: "index v = 1"
    obtain e a' ex' where r: "render_wave cmaps (fig_ax v) ex pp = (e, a', ex')"
      by (cases "render_wave cmaps (fig_ax v) ex pp") auto
    show ?thesis
      using switch_two_1 [OF ex i r] i by (simp add: press_def two_datasets_def)
  qed
qed

lemma press_one_fold:
  "one_dataset v \<Longrightarrow> index v = 0 \<Longrightarrow>
     one_dataset (fold (\<lambda>k. press cmaps k pp) keys v) \<and> index (fold (\<lambda>k. press cmaps k pp) keys v) = 0"
proof (induction keys arbitrary: v)
  case Nil
  then show ?case by simp
next
  case (Cons k keys)
  have "one_dataset (press cmaps k pp v) \<and> index (press cmaps k pp v) = 0"
    using press_one [OF Cons.prems] .
  then show ?case using Cons.IH [of "press cmaps k pp v"] by simp
qed

lemma press_two_iter:
  assumes "two_datasets v" and "index v = 0 \<or> index v = 1"
  shows "two_datasets ((press cmaps ''r'' pp ^^ n) v)
         \<and> index ((press cmaps ''r'' pp ^^ n) v) = (index v + int n) mod 2"
proof (induction n)
  case 0
  then show ?case using assms by auto
next
  case (Suc n)
  define w where "w = (press cmaps ''r'' pp ^^ n) v"
  have w: "two_datasets w" "index w = (index v + int n) mod 2"
    using Suc.IH unfolding w_def by blast+
  have r: "index w = 0 \<or> index w = 1" using w(2) by presburger
  have step: "(press cmaps ''r'' pp ^^ Suc n) v = press cmaps ''r'' pp w"
    unfolding w_def by simp
  have "index (press cmaps ''r'' pp w) = 1 - index w"
    using press_two [OF w(1) r] by blast
  also have "\<dots> = (index v + int (Suc n)) mod 2"
    using w(2) by (simp only: of_nat_Suc) presburger
  finally show ?case
    unfolding step using press_two [OF w(1) r, where cmaps = cmaps and pp = pp] by blast
qed

lemma Plotter_plot_start:
  "index (snd (Plotter_plot cmaps (Plotter_init original reciprocal) pp)) = 0
   \<and> (\<exists>ex'. experiments (snd (Plotter_plot cmaps (Plotter_init original reciprocal) pp))
                  = [Some ex', reciprocal])"
proof -
  let ?a = "\<lparr>source_index = int (length (sourceNumbers original)) div 2, content = []\<rparr>"
  obtain e a' ex' where r: "render_wave cmaps ?a original pp = (e, a', ex')"
    by (cases "render_wave cmaps ?a original pp") auto
  show ?thesis
    by (simp add: Plotter_plot_def Plotter_init_def py_pos_def Let_def r)
qed

text \<open>
  C8. With one dataset (\<^verbatim>\<open>reciprocal=None\<close>) the dataset index starts at 0 and no key,
  \<open>r\<close> included, ever changes it; \<^verbatim>\<open>switch_experiments\<close> then only redraws the
  original dataset and raises nothing but what that redraw raises. With two datasets
  every \<open>r\<close> toggles the index between 0 and 1, so that after \<open>n\<close> presses it is
  \<open>(index + n) mod 2\<close>.
\<close>

theorem C8_switch_experiments:
  "(index (snd (Plotter_plot cmaps (Plotter_init original reciprocal) pp)) = 0
    \<and> (\<exists>ex'. experiments (snd (Plotter_plot cmaps (Plotter_init original reciprocal) pp))
                  = [Some ex', reciprocal]))
   \<and> (experiments v = [Some ex, None] \<and> index v = 0 \<longrightarrow>
      index (press cmaps key pp v) = 0
      \<and> fst (switch_experiments cmaps key v pp) = fst (render_wave cmaps (fig_ax v) ex pp)
      \<and> index (fold (\<lambda>k. press cmaps k pp) keys v) = 0)
   \<and> (experiments w = [Some exa, Some exb] \<and> (index w = 0 \<or> index w = 1) \<longrightarrow>
      index (press cmaps ''r'' pp w) = 1 - index w
      \<and> index ((press cmaps ''r'' pp ^^ n) w) = (index w + int n) mod 2)"
proof (intro conjI impI)
  show "index (snd (Plotter_plot cmaps (Plotter_init original reciprocal) pp)) = 0"
    using Plotter_plot_start by blast
  show "\<exists>ex'. experiments (snd (Plotter_plot cmaps (Plotter_init original reciprocal) pp))
                  = [Some ex', reciprocal]"
    using Plotter_plot_start by blast
next
  assume a: "experiments v = [Some ex, None] \<and> index v = 0"
  then have o: "one_dataset v" by (simp add: one_dataset_def)
  show "index (press cmaps key pp v) = 0" using press_one [OF o] a by blast
  show "index (fold (\<lambda>k. press cmaps k pp) keys v) = 0" using press_one_fold [OF o] a by blast
  obtain e a' ex' where r: "render_wave cmaps (fig_ax v) ex pp = (e, a', ex')"
    by (cases "render_wave cmaps (fig_ax v) ex pp") auto
  show "fst (switch_experiments cmaps key v pp) = fst (render_wave cmaps (fig_ax v) ex pp)"
    using switch_one [OF _ _ r, of key] a by (simp add: r)
next
  assume a: "experiments w = [Some exa, Some exb] \<and> (index w = 0 \<or> index w = 1)"
  then have t: "two_datasets w" by (simp add: two_datasets_def)
  show "index (press cmaps ''r'' pp w) = 1 - index w" using press_two [OF t] a by blast
  show "index ((press cmaps ''r'' pp ^^ n) w) = (index w + int n) mod 2"
    using press_two_iter [OF t] a by blast
qed

lemma demo_wave_title:
  "wave_title 2 [1, 2, 3] (Some demo_points) ''data'' default_params
     = Inr ''Data [Source 3 @ (2.00, 1.00)]''"
  by (simp add: default_params_def wave_title_def with_row_def point_row_def py_index_def
        py_pos_def demo_points_def fmt_02f_small str_int_3)

lemma demo_render:
  "fst (render_wave demo_cmaps demo_axes demo_experiment default_params) = None"
proof -
  have e: "err (plotWiggles demo_cmaps [] [[0, 0], [0, 0]] [0, 1] [1, 2]
                  (Some \<lparr>shape1 = 2, rows = [[0, 0], [1, 0]]\<rparr>)
                  ''Data [Source 3 @ (2.00, 1.00)]'' ''data'' default_params) = None"
    by (rule completes_default) simp_all
  show ?thesis
    by (simp add: render_wave_def demo_axes_def demo_experiment_def demo_wave_title py_pos_def
          Let_def e)
qed

theorem C8_witness:
  "experiments (demo_viewer None) = [Some demo_experiment, None] \<and> index (demo_viewer None) = 0
   \<and> index (press demo_cmaps ''r'' default_params (demo_viewer None)) = 0
   \<and> fst (switch_experiments demo_cmaps ''r'' (demo_viewer None) default_params) = None
   \<and> index (fold (\<lambda>k. press demo_cmaps k default_params) [''r'', ''x'', ''r''] (demo_viewer None)) = 0
   \<and> experiments (demo_viewer (Some demo_experiment)) = [Some demo_experiment, Some demo_experiment]
   \<and> index (demo_viewer (Some demo_experiment)) = 0
   \<and> index (press demo_cmaps ''r'' default_params (demo_viewer (Some demo_experiment))) = 1
   \<and> index ((press demo_cmaps ''r'' default_params ^^ 2) (demo_viewer (Some demo_experiment))) = 0
   \<and> index ((press demo_cmaps ''r'' default_params ^^ 3) (demo_viewer (Some demo_experiment))) = 1"
  using C8_switch_experiments [where v = "demo_viewer None" and ex = demo_experiment
          and key = "''r''" and pp = default_params and keys = "[''r'', ''x'', ''r'']"
          and w = "demo_viewer (Some demo_experiment)" and exa = demo_experiment
          and exb = demo_experiment and n = 2]
    C8_switch_experiments [where v = "demo_viewer None" and ex = demo_experiment
          and key = "''r''" and pp = default_params and keys = "[''r'', ''x'', ''r'']"
          and w = "demo_viewer (Some demo_experiment)" and exa = demo_experiment
          and exb = demo_experiment and n = 3]
    demo_render
  by (simp add: demo_viewer_def)

end
